theory Spec2Isabelle
  imports Main "HOL-Library.Word"
begin

section \<open>Data model\<close>

text \<open>
  Modelled from the spec: the types that \<^verbatim>\<open>ng/AndroidKeyMintDevice.cpp\<close> works on are declared
  in headers of the interface and of the engine. The data model of the spec gives their
  content (authorization tag, authorization set, enforcement domain, key characteristics, key
  creation result, operation handle); the names, the fields and the enumerators here are those
  that the source uses. \<^verbatim>\<open>SecurityLevel\<close>: the source names \<^verbatim>\<open>SOFTWARE\<close> and \<^verbatim>\<open>KEYSTORE\<close>, and
  the comment at the head of \<^verbatim>\<open>convertKeyCharacteristics\<close> names the other two.
\<close>

datatype SecurityLevel = SOFTWARE | TRUSTED_ENVIRONMENT | STRONGBOX | KEYSTORE

text \<open>
  Modelled from the spec: \<^verbatim>\<open>keymaster_tag_t\<close> is a fixed closed vocabulary, and the
  classification table names each of its identifiers once. The constructors are the 73 case
  labels of the switch in \<^verbatim>\<open>convertKeyCharacteristics\<close>, in the order of the switch, which
  has no default label.
\<close>

datatype (plugins only: code) keymaster_tag_t =
    KM_TAG_ECIES_SINGLE_HASH_MODE | KM_TAG_INVALID | KM_TAG_KDF
  | KM_TAG_ROLLBACK_RESISTANCE
  | KM_TAG_ALLOW_WHILE_ON_BODY | KM_TAG_BOOTLOADER_ONLY | KM_TAG_ROLLBACK_RESISTANT
  | KM_TAG_STORAGE_KEY
  | KM_TAG_CREATION_DATETIME
  | KM_TAG_APPLICATION_DATA | KM_TAG_ATTESTATION_APPLICATION_ID
  | KM_TAG_ASSOCIATED_DATA | KM_TAG_ATTESTATION_CHALLENGE | KM_TAG_ATTESTATION_ID_BRAND
  | KM_TAG_ATTESTATION_ID_DEVICE | KM_TAG_ATTESTATION_ID_IMEI
  | KM_TAG_ATTESTATION_ID_SECOND_IMEI | KM_TAG_ATTESTATION_ID_MANUFACTURER
  | KM_TAG_ATTESTATION_ID_MEID | KM_TAG_ATTESTATION_ID_MODEL
  | KM_TAG_ATTESTATION_ID_PRODUCT | KM_TAG_ATTESTATION_ID_SERIAL | KM_TAG_AUTH_TOKEN
  | KM_TAG_CERTIFICATE_SERIAL | KM_TAG_CERTIFICATE_SUBJECT | KM_TAG_CERTIFICATE_NOT_AFTER
  | KM_TAG_CERTIFICATE_NOT_BEFORE | KM_TAG_CONFIRMATION_TOKEN
  | KM_TAG_DEVICE_UNIQUE_ATTESTATION | KM_TAG_IDENTITY_CREDENTIAL_KEY
  | KM_TAG_INCLUDE_UNIQUE_ID | KM_TAG_MAC_LENGTH | KM_TAG_NONCE
  | KM_TAG_RESET_SINCE_ID_ROTATION | KM_TAG_ROOT_OF_TRUST | KM_TAG_UNIQUE_ID
  | KM_TAG_ALGORITHM | KM_TAG_APPLICATION_ID | KM_TAG_AUTH_TIMEOUT
  | KM_TAG_BLOB_USAGE_REQUIREMENTS | KM_TAG_BLOCK_MODE | KM_TAG_BOOT_PATCHLEVEL
  | KM_TAG_CALLER_NONCE | KM_TAG_DIGEST | KM_TAG_EARLY_BOOT_ONLY | KM_TAG_EC_CURVE
  | KM_TAG_EXPORTABLE | KM_TAG_KEY_SIZE | KM_TAG_MAX_USES_PER_BOOT | KM_TAG_MIN_MAC_LENGTH
  | KM_TAG_MIN_SECONDS_BETWEEN_OPS | KM_TAG_NO_AUTH_REQUIRED | KM_TAG_ORIGIN
  | KM_TAG_OS_PATCHLEVEL | KM_TAG_OS_VERSION | KM_TAG_PADDING | KM_TAG_PURPOSE
  | KM_TAG_RSA_OAEP_MGF_DIGEST | KM_TAG_RSA_PUBLIC_EXPONENT
  | KM_TAG_TRUSTED_CONFIRMATION_REQUIRED | KM_TAG_TRUSTED_USER_PRESENCE_REQUIRED
  | KM_TAG_UNLOCKED_DEVICE_REQUIRED | KM_TAG_USER_AUTH_TYPE | KM_TAG_USER_SECURE_ID
  | KM_TAG_VENDOR_PATCHLEVEL
  | KM_TAG_ACTIVE_DATETIME | KM_TAG_ALL_APPLICATIONS | KM_TAG_ALL_USERS
  | KM_TAG_MAX_BOOT_LEVEL | KM_TAG_ORIGINATION_EXPIRE_DATETIME
  | KM_TAG_USAGE_EXPIRE_DATETIME | KM_TAG_USER_ID | KM_TAG_USAGE_COUNT_LIMIT

type_synonym byte = "8 word"

text \<open>The value union of \<^verbatim>\<open>keymaster_key_param_t\<close>; the adapter itself builds only blobs.\<close>

datatype param_value =
    enumerated "32 word"
  | boolean bool
  | integer "32 word"
  | long_integer "64 word"
  | date_time "64 word"
  | blob "byte list"

record keymaster_key_param_t =
  tag :: keymaster_tag_t
  pvalue :: param_value

text \<open>An \<^verbatim>\<open>AuthorizationSet\<close> is a sequence of parameters; duplicates of a tag are allowed.\<close>

type_synonym AuthorizationSet = "keymaster_key_param_t list"

text \<open>
  Modelled from the spec: \<^verbatim>\<open>kmParam2Aidl\<close>, \<^verbatim>\<open>kmParamSet2Aidl\<close> and \<^verbatim>\<open>KmParamSet\<close> of
  \<^verbatim>\<open>KeyMintUtils\<close> carry a parameter, and a parameter list in its order, between the engine's
  form and the interface's form, \<^verbatim>\<open>KeyParameter\<close>, and change nothing else (the spec's
  "verbatim", "order and content"). The model has one parameter type for both forms, so each
  of the three returns its argument.
\<close>

type_synonym KeyParameter = keymaster_key_param_t

definition kmParam2Aidl :: "keymaster_key_param_t \<Rightarrow> KeyParameter" where
  "kmParam2Aidl param = param"

definition kmParamSet2Aidl :: "AuthorizationSet \<Rightarrow> KeyParameter list" where
  "kmParamSet2Aidl params = map kmParam2Aidl params"

definition KmParamSet :: "KeyParameter list \<Rightarrow> AuthorizationSet" where
  "KmParamSet keyParams = keyParams"

record KeyCharacteristics =
  securityLevel :: SecurityLevel
  authorizations :: "KeyParameter list"

text \<open>
  \<^verbatim>\<open>CHECK(c)\<close> of android-base aborts the process when \<open>c\<close> is false. A call that aborts
  returns \<open>Inl CHECK_failed\<close>; a call that returns has the value \<open>Inr\<close>.
\<close>

datatype fault = CHECK_failed

definition push_back :: "'a list \<Rightarrow> 'a \<Rightarrow> 'a list" where
  "push_back v x = v @ [x]"

text \<open>\<^verbatim>\<open>AuthorizationSet::Contains(tag)\<close>: some entry of the set carries the tag.\<close>

definition Contains :: "AuthorizationSet \<Rightarrow> keymaster_tag_t \<Rightarrow> bool" where
  "Contains params t = (find (\<lambda>p. tag p = t) params \<noteq> None)"

section \<open>The tag classifier: \<^verbatim>\<open>convertKeyCharacteristics\<close>\<close>

text \<open>
  One pass of the body of \<^verbatim>\<open>for (auto& entry : sw_enforced) switch (entry.tag)\<close>. The four
  bodies that the case labels share are named once; each label of the source has its line,
  in the order of the source.
\<close>

definition switch_entry ::
  "AuthorizationSet \<Rightarrow> keymaster_key_param_t \<Rightarrow> KeyCharacteristics \<times> KeyCharacteristics
     \<Rightarrow> fault + KeyCharacteristics \<times> KeyCharacteristics" where
  "switch_entry requestParams entry acc =
    (let keyMintEnforced = fst acc;
         keystoreEnforced = snd acc;
         check_false = Inl CHECK_failed;
         break = Inr (keyMintEnforced, keystoreEnforced);
         to_keyMintEnforced = Inr (keyMintEnforced\<lparr>authorizations :=
             push_back (authorizations keyMintEnforced) (kmParam2Aidl entry)\<rparr>, keystoreEnforced);
         to_keystoreEnforced = Inr (keyMintEnforced, keystoreEnforced\<lparr>authorizations :=
             push_back (authorizations keystoreEnforced) (kmParam2Aidl entry)\<rparr>)
     in case tag entry of
        KM_TAG_ECIES_SINGLE_HASH_MODE \<Rightarrow> check_false
      | KM_TAG_INVALID \<Rightarrow> check_false
      | KM_TAG_KDF \<Rightarrow> check_false
      | KM_TAG_ROLLBACK_RESISTANCE \<Rightarrow> check_false
      | KM_TAG_ALLOW_WHILE_ON_BODY \<Rightarrow> break
      | KM_TAG_BOOTLOADER_ONLY \<Rightarrow> break
      | KM_TAG_ROLLBACK_RESISTANT \<Rightarrow> break
      | KM_TAG_STORAGE_KEY \<Rightarrow> break
      | KM_TAG_CREATION_DATETIME \<Rightarrow> (if Contains requestParams KM_TAG_CREATION_DATETIME
          then to_keystoreEnforced else break)
      | KM_TAG_APPLICATION_DATA \<Rightarrow> break
      | KM_TAG_ATTESTATION_APPLICATION_ID \<Rightarrow> break
      | KM_TAG_ASSOCIATED_DATA \<Rightarrow> break
      | KM_TAG_ATTESTATION_CHALLENGE \<Rightarrow> break
      | KM_TAG_ATTESTATION_ID_BRAND \<Rightarrow> break
      | KM_TAG_ATTESTATION_ID_DEVICE \<Rightarrow> break
      | KM_TAG_ATTESTATION_ID_IMEI \<Rightarrow> break
      | KM_TAG_ATTESTATION_ID_SECOND_IMEI \<Rightarrow> break
      | KM_TAG_ATTESTATION_ID_MANUFACTURER \<Rightarrow> break
      | KM_TAG_ATTESTATION_ID_MEID \<Rightarrow> break
      | KM_TAG_ATTESTATION_ID_MODEL \<Rightarrow> break
      | KM_TAG_ATTESTATION_ID_PRODUCT \<Rightarrow> break
      | KM_TAG_ATTESTATION_ID_SERIAL \<Rightarrow> break
      | KM_TAG_AUTH_TOKEN \<Rightarrow> break
      | KM_TAG_CERTIFICATE_SERIAL \<Rightarrow> break
      | KM_TAG_CERTIFICATE_SUBJECT \<Rightarrow> break
      | KM_TAG_CERTIFICATE_NOT_AFTER \<Rightarrow> break
      | KM_TAG_CERTIFICATE_NOT_BEFORE \<Rightarrow> break
      | KM_TAG_CONFIRMATION_TOKEN \<Rightarrow> break
      | KM_TAG_DEVICE_UNIQUE_ATTESTATION \<Rightarrow> break
      | KM_TAG_IDENTITY_CREDENTIAL_KEY \<Rightarrow> break
      | KM_TAG_INCLUDE_UNIQUE_ID \<Rightarrow> break
      | KM_TAG_MAC_LENGTH \<Rightarrow> break
      | KM_TAG_NONCE \<Rightarrow> break
      | KM_TAG_RESET_SINCE_ID_ROTATION \<Rightarrow> break
      | KM_TAG_ROOT_OF_TRUST \<Rightarrow> break
      | KM_TAG_UNIQUE_ID \<Rightarrow> break
      | KM_TAG_ALGORITHM \<Rightarrow> to_keyMintEnforced
      | KM_TAG_APPLICATION_ID \<Rightarrow> to_keyMintEnforced
      | KM_TAG_AUTH_TIMEOUT \<Rightarrow> to_keyMintEnforced
      | KM_TAG_BLOB_USAGE_REQUIREMENTS \<Rightarrow> to_keyMintEnforced
      | KM_TAG_BLOCK_MODE \<Rightarrow> to_keyMintEnforced
      | KM_TAG_BOOT_PATCHLEVEL \<Rightarrow> to_keyMintEnforced
      | KM_TAG_CALLER_NONCE \<Rightarrow> to_keyMintEnforced
      | KM_TAG_DIGEST \<Rightarrow> to_keyMintEnforced
      | KM_TAG_EARLY_BOOT_ONLY \<Rightarrow> to_keyMintEnforced
      | KM_TAG_EC_CURVE \<Rightarrow> to_keyMintEnforced
      | KM_TAG_EXPORTABLE \<Rightarrow> to_keyMintEnforced
      | KM_TAG_KEY_SIZE \<Rightarrow> to_keyMintEnforced
      | KM_TAG_MAX_USES_PER_BOOT \<Rightarrow> to_keyMintEnforced
      | KM_TAG_MIN_MAC_LENGTH \<Rightarrow> to_keyMintEnforced
      | KM_TAG_MIN_SECONDS_BETWEEN_OPS \<Rightarrow> to_keyMintEnforced
      | KM_TAG_NO_AUTH_REQUIRED \<Rightarrow> to_keyMintEnforced
      | KM_TAG_ORIGIN \<Rightarrow> to_keyMintEnforced
      | KM_TAG_OS_PATCHLEVEL \<Rightarrow> to_keyMintEnforced
      | KM_TAG_OS_VERSION \<Rightarrow> to_keyMintEnforced
      | KM_TAG_PADDING \<Rightarrow> to_keyMintEnforced
      | KM_TAG_PURPOSE \<Rightarrow> to_keyMintEnforced
      | KM_TAG_RSA_OAEP_MGF_DIGEST \<Rightarrow> to_keyMintEnforced
      | KM_TAG_RSA_PUBLIC_EXPONENT \<Rightarrow> to_keyMintEnforced
      | KM_TAG_TRUSTED_CONFIRMATION_REQUIRED \<Rightarrow> to_keyMintEnforced
      | KM_TAG_TRUSTED_USER_PRESENCE_REQUIRED \<Rightarrow> to_keyMintEnforced
      | KM_TAG_UNLOCKED_DEVICE_REQUIRED \<Rightarrow> to_keyMintEnforced
      | KM_TAG_USER_AUTH_TYPE \<Rightarrow> to_keyMintEnforced
      | KM_TAG_USER_SECURE_ID \<Rightarrow> to_keyMintEnforced
      | KM_TAG_VENDOR_PATCHLEVEL \<Rightarrow> to_keyMintEnforced
      | KM_TAG_ACTIVE_DATETIME \<Rightarrow> to_keystoreEnforced
      | KM_TAG_ALL_APPLICATIONS \<Rightarrow> to_keystoreEnforced
      | KM_TAG_ALL_USERS \<Rightarrow> to_keystoreEnforced
      | KM_TAG_MAX_BOOT_LEVEL \<Rightarrow> to_keystoreEnforced
      | KM_TAG_ORIGINATION_EXPIRE_DATETIME \<Rightarrow> to_keystoreEnforced
      | KM_TAG_USAGE_EXPIRE_DATETIME \<Rightarrow> to_keystoreEnforced
      | KM_TAG_USER_ID \<Rightarrow> to_keystoreEnforced
      | KM_TAG_USAGE_COUNT_LIMIT \<Rightarrow> to_keystoreEnforced)"

text \<open>The loop over \<^verbatim>\<open>sw_enforced\<close>; a failed \<^verbatim>\<open>CHECK\<close> ends it.\<close>

fun for_sw_enforced ::
  "AuthorizationSet \<Rightarrow> AuthorizationSet \<Rightarrow> KeyCharacteristics \<times> KeyCharacteristics
     \<Rightarrow> fault + KeyCharacteristics \<times> KeyCharacteristics" where
  "for_sw_enforced requestParams [] acc = Inr acc"
| "for_sw_enforced requestParams (entry # rest) acc =
    (case switch_entry requestParams entry acc of
       Inl f \<Rightarrow> Inl f
     | Inr acc' \<Rightarrow> for_sw_enforced requestParams rest acc')"

definition convertKeyCharacteristics ::
  "SecurityLevel \<Rightarrow> AuthorizationSet \<Rightarrow> AuthorizationSet \<Rightarrow> AuthorizationSet \<Rightarrow> bool
     \<Rightarrow> fault + KeyCharacteristics list" where
  "convertKeyCharacteristics keyMintSecurityLevel requestParams sw_enforced hw_enforced
       include_keystore_enforced =
    (let keyMintEnforced = \<lparr>securityLevel = keyMintSecurityLevel, authorizations = []\<rparr> in
     if keyMintSecurityLevel \<noteq> SOFTWARE then
       (let keyMintEnforced = keyMintEnforced\<lparr>authorizations := kmParamSet2Aidl hw_enforced\<rparr> in
        if include_keystore_enforced \<and> sw_enforced \<noteq> [] then
          (let keystoreEnforced = \<lparr>securityLevel = KEYSTORE,
                                    authorizations = kmParamSet2Aidl sw_enforced\<rparr>
           in Inr [keyMintEnforced, keystoreEnforced])
        else Inr [keyMintEnforced])
     else
       (let keystoreEnforced = \<lparr>securityLevel = KEYSTORE, authorizations = []\<rparr> in
        if hw_enforced \<noteq> [] then Inl CHECK_failed
        else
          (case for_sw_enforced requestParams sw_enforced (keyMintEnforced, keystoreEnforced) of
             Inl f \<Rightarrow> Inl f
           | Inr (keyMintEnforced, keystoreEnforced) \<Rightarrow>
               (let retval = [];
                    retval = (if authorizations keyMintEnforced \<noteq> []
                              then push_back retval keyMintEnforced else retval);
                    retval = (if include_keystore_enforced \<and> authorizations keystoreEnforced \<noteq> []
                              then push_back retval keystoreEnforced else retval)
                in Inr retval))))"

text \<open>
  The spec's Authorization Tag Registry: the category of each tag. The source has the table
  as the groups of case labels of the switch, each under a comment; the categories are,
  in the order of the source: "Invalid and unused", "Unimplemented", "Keystore-enforced if
  not locally generated", "Disallowed in KeyCharacteristics", "Not key characteristics",
  "KeyMint-enforced", "Keystore-enforced".
\<close>

datatype TagClass =
    Invalid | Unimplemented | ConditionalKeystore | Excluded | NotCharacteristic
  | HardwareEnforced | KeystoreEnforced

primrec Registry :: "keymaster_tag_t \<Rightarrow> TagClass" where
  "Registry KM_TAG_ECIES_SINGLE_HASH_MODE = Invalid"
| "Registry KM_TAG_INVALID = Invalid"
| "Registry KM_TAG_KDF = Invalid"
| "Registry KM_TAG_ROLLBACK_RESISTANCE = Invalid"
| "Registry KM_TAG_ALLOW_WHILE_ON_BODY = Unimplemented"
| "Registry KM_TAG_BOOTLOADER_ONLY = Unimplemented"
| "Registry KM_TAG_ROLLBACK_RESISTANT = Unimplemented"
| "Registry KM_TAG_STORAGE_KEY = Unimplemented"
| "Registry KM_TAG_CREATION_DATETIME = ConditionalKeystore"
| "Registry KM_TAG_APPLICATION_DATA = Excluded"
| "Registry KM_TAG_ATTESTATION_APPLICATION_ID = Excluded"
| "Registry KM_TAG_ASSOCIATED_DATA = NotCharacteristic"
| "Registry KM_TAG_ATTESTATION_CHALLENGE = NotCharacteristic"
| "Registry KM_TAG_ATTESTATION_ID_BRAND = NotCharacteristic"
| "Registry KM_TAG_ATTESTATION_ID_DEVICE = NotCharacteristic"
| "Registry KM_TAG_ATTESTATION_ID_IMEI = NotCharacteristic"
| "Registry KM_TAG_ATTESTATION_ID_SECOND_IMEI = NotCharacteristic"
| "Registry KM_TAG_ATTESTATION_ID_MANUFACTURER = NotCharacteristic"
| "Registry KM_TAG_ATTESTATION_ID_MEID = NotCharacteristic"
| "Registry KM_TAG_ATTESTATION_ID_MODEL = NotCharacteristic"
| "Registry KM_TAG_ATTESTATION_ID_PRODUCT = NotCharacteristic"
| "Registry KM_TAG_ATTESTATION_ID_SERIAL = NotCharacteristic"
| "Registry KM_TAG_AUTH_TOKEN = NotCharacteristic"
| "Registry KM_TAG_CERTIFICATE_SERIAL = NotCharacteristic"
| "Registry KM_TAG_CERTIFICATE_SUBJECT = NotCharacteristic"
| "Registry KM_TAG_CERTIFICATE_NOT_AFTER = NotCharacteristic"
| "Registry KM_TAG_CERTIFICATE_NOT_BEFORE = NotCharacteristic"
| "Registry KM_TAG_CONFIRMATION_TOKEN = NotCharacteristic"
| "Registry KM_TAG_DEVICE_UNIQUE_ATTESTATION = NotCharacteristic"
| "Registry KM_TAG_IDENTITY_CREDENTIAL_KEY = NotCharacteristic"
| "Registry KM_TAG_INCLUDE_UNIQUE_ID = NotCharacteristic"
| "Registry KM_TAG_MAC_LENGTH = NotCharacteristic"
| "Registry KM_TAG_NONCE = NotCharacteristic"
| "Registry KM_TAG_RESET_SINCE_ID_ROTATION = NotCharacteristic"
| "Registry KM_TAG_ROOT_OF_TRUST = NotCharacteristic"
| "Registry KM_TAG_UNIQUE_ID = NotCharacteristic"
| "Registry KM_TAG_ALGORITHM = HardwareEnforced"
| "Registry KM_TAG_APPLICATION_ID = HardwareEnforced"
| "Registry KM_TAG_AUTH_TIMEOUT = HardwareEnforced"
| "Registry KM_TAG_BLOB_USAGE_REQUIREMENTS = HardwareEnforced"
| "Registry KM_TAG_BLOCK_MODE = HardwareEnforced"
| "Registry KM_TAG_BOOT_PATCHLEVEL = HardwareEnforced"
| "Registry KM_TAG_CALLER_NONCE = HardwareEnforced"
| "Registry KM_TAG_DIGEST = HardwareEnforced"
| "Registry KM_TAG_EARLY_BOOT_ONLY = HardwareEnforced"
| "Registry KM_TAG_EC_CURVE = HardwareEnforced"
| "Registry KM_TAG_EXPORTABLE = HardwareEnforced"
| "Registry KM_TAG_KEY_SIZE = HardwareEnforced"
| "Registry KM_TAG_MAX_USES_PER_BOOT = HardwareEnforced"
| "Registry KM_TAG_MIN_MAC_LENGTH = HardwareEnforced"
| "Registry KM_TAG_MIN_SECONDS_BETWEEN_OPS = HardwareEnforced"
| "Registry KM_TAG_NO_AUTH_REQUIRED = HardwareEnforced"
| "Registry KM_TAG_ORIGIN = HardwareEnforced"
| "Registry KM_TAG_OS_PATCHLEVEL = HardwareEnforced"
| "Registry KM_TAG_OS_VERSION = HardwareEnforced"
| "Registry KM_TAG_PADDING = HardwareEnforced"
| "Registry KM_TAG_PURPOSE = HardwareEnforced"
| "Registry KM_TAG_RSA_OAEP_MGF_DIGEST = HardwareEnforced"
| "Registry KM_TAG_RSA_PUBLIC_EXPONENT = HardwareEnforced"
| "Registry KM_TAG_TRUSTED_CONFIRMATION_REQUIRED = HardwareEnforced"
| "Registry KM_TAG_TRUSTED_USER_PRESENCE_REQUIRED = HardwareEnforced"
| "Registry KM_TAG_UNLOCKED_DEVICE_REQUIRED = HardwareEnforced"
| "Registry KM_TAG_USER_AUTH_TYPE = HardwareEnforced"
| "Registry KM_TAG_USER_SECURE_ID = HardwareEnforced"
| "Registry KM_TAG_VENDOR_PATCHLEVEL = HardwareEnforced"
| "Registry KM_TAG_ACTIVE_DATETIME = KeystoreEnforced"
| "Registry KM_TAG_ALL_APPLICATIONS = KeystoreEnforced"
| "Registry KM_TAG_ALL_USERS = KeystoreEnforced"
| "Registry KM_TAG_MAX_BOOT_LEVEL = KeystoreEnforced"
| "Registry KM_TAG_ORIGINATION_EXPIRE_DATETIME = KeystoreEnforced"
| "Registry KM_TAG_USAGE_EXPIRE_DATETIME = KeystoreEnforced"
| "Registry KM_TAG_USER_ID = KeystoreEnforced"
| "Registry KM_TAG_USAGE_COUNT_LIMIT = KeystoreEnforced"

text \<open>
  What the classification routes where, read off the Registry: the entries of a
  software-enforced set that the KeyMint entry receives, those that the keystore entry
  receives, and whether the set holds a tag that must never be seen.
\<close>

definition keyMint_part :: "AuthorizationSet \<Rightarrow> AuthorizationSet" where
  "keyMint_part S = filter (\<lambda>e. Registry (tag e) = HardwareEnforced) S"

definition keystore_part :: "AuthorizationSet \<Rightarrow> AuthorizationSet \<Rightarrow> AuthorizationSet" where
  "keystore_part R S = filter (\<lambda>e. Registry (tag e) = KeystoreEnforced \<or>
       (Registry (tag e) = ConditionalKeystore \<and> Contains R (tag e))) S"

definition has_Invalid :: "AuthorizationSet \<Rightarrow> bool" where
  "has_Invalid S = list_ex (\<lambda>e. Registry (tag e) = Invalid) S"

section \<open>The engine\<close>

text \<open>
  Modelled from the spec: \<^verbatim>\<open>keymaster_error_t\<close>, with the enumerators that this development
  names. The source names \<^verbatim>\<open>KM_ERROR_OK\<close> and \<^verbatim>\<open>KM_ERROR_UNIMPLEMENTED\<close>;
  \<^verbatim>\<open>KM_ERROR_TOO_MANY_OPERATIONS\<close> is the resource-exhaustion error of the spec,
  \<^verbatim>\<open>KM_ERROR_INVALID_OPERATION_HANDLE\<close> the answer to a handle that the table does not hold;
  \<open>KM_ERROR_CODE\<close> stands for every other enumerator, by its number.
\<close>

datatype keymaster_error_t =
    KM_ERROR_OK
  | KM_ERROR_UNIMPLEMENTED
  | KM_ERROR_TOO_MANY_OPERATIONS
  | KM_ERROR_INVALID_OPERATION_HANDLE
  | KM_ERROR_CODE int

datatype ScopedAStatus = ok | ServiceSpecificError keymaster_error_t

text \<open>
  Modelled from the spec: \<^verbatim>\<open>kmError2ScopedAStatus\<close> of \<^verbatim>\<open>KeyMintUtils\<close>. Every engine error
  reaches the caller verbatim; \<^verbatim>\<open>KM_ERROR_OK\<close> is success.
\<close>

definition kmError2ScopedAStatus :: "keymaster_error_t \<Rightarrow> ScopedAStatus" where
  "kmError2ScopedAStatus e = (if e = KM_ERROR_OK then ok else ServiceSpecificError e)"

type_synonym keymaster_operation_handle_t = "64 word"
type_synonym keymaster_purpose_t = "32 word"
type_synonym keymaster_key_format_t = "32 word"
type_synonym KeyPurpose = "32 word"
type_synonym KeyFormat = "32 word"

text \<open>
  \<^verbatim>\<open>legacy_enum_conversion\<close> is a cast between enumerations of equal numbering, and
  \<^verbatim>\<open>kmBlob2vector\<close> copies the bytes of a blob. The casts of \<^verbatim>\<open>passwordSid\<close> and
  \<^verbatim>\<open>biometricSid\<close> from signed to unsigned keep the 64 bits, which is all a word has.
\<close>

definition legacy_enum_conversion :: "32 word \<Rightarrow> 32 word" where
  "legacy_enum_conversion x = x"

definition kmBlob2vector :: "byte list \<Rightarrow> byte list" where
  "kmBlob2vector b = b"

text \<open>
  The request messages, with the fields that the adapter sets. \<^verbatim>\<open>key_material\<close> is the field
  that \<^verbatim>\<open>SetKeyMaterial\<close> fills; \<^verbatim>\<open>wrapped_key\<close>, \<^verbatim>\<open>wrapping_key\<close> and \<^verbatim>\<open>masking_key\<close> are
  those of \<^verbatim>\<open>SetWrappedMaterial\<close>, \<^verbatim>\<open>SetWrappingMaterial\<close> and \<^verbatim>\<open>SetMaskingKeyMaterial\<close>.
  A field that the adapter leaves alone keeps the empty value of the constructor.
  A field name is declared once in this theory: \<^verbatim>\<open>additional_params\<close> of
  \<^verbatim>\<open>ImportWrappedKeyRequest\<close> is \<open>unwrapping_params\<close> here, and the key material of
  \<^verbatim>\<open>UpgradeKeyRequest\<close> is \<open>upgrade_key_material\<close>.
\<close>

record AddEntropyRequest =
  random_data :: "byte list"

record GenerateKeyRequest =
  key_description :: AuthorizationSet
  attestation_signing_key_blob :: "byte list"
  attest_key_params :: AuthorizationSet
  issuer_subject :: "byte list"

record ImportKeyRequest = GenerateKeyRequest +
  key_format :: keymaster_key_format_t
  key_data :: "byte list"

record ImportWrappedKeyRequest =
  wrapped_key :: "byte list"
  wrapping_key :: "byte list"
  masking_key :: "byte list"
  unwrapping_params :: AuthorizationSet
  password_sid :: "64 word"
  biometric_sid :: "64 word"

record UpgradeKeyRequest =
  upgrade_key_material :: "byte list"
  upgrade_params :: AuthorizationSet

record GetKeyCharacteristicsRequest =
  key_material :: "byte list"
  additional_params :: AuthorizationSet

record BeginOperationRequest = GetKeyCharacteristicsRequest +
  purpose :: keymaster_purpose_t

text \<open>The response messages; every one carries \<^verbatim>\<open>error\<close>.\<close>

record KeymasterResponse =
  error :: keymaster_error_t

record GetKeyCharacteristicsResponse = KeymasterResponse +
  enforced :: AuthorizationSet
  unenforced :: AuthorizationSet

record GenerateKeyResponse = GetKeyCharacteristicsResponse +
  key_blob :: "byte list"
  certificate_chain :: "byte list list"

record UpgradeKeyResponse = KeymasterResponse +
  upgraded_key :: "byte list"

record BeginOperationResponse = KeymasterResponse +
  output_params :: AuthorizationSet
  op_handle :: keymaster_operation_handle_t

text \<open>
  The member \<^verbatim>\<open>impl_\<close> is an \<^verbatim>\<open>AndroidKeymaster\<close>. Its methods are parameters of the model: each takes
  the request and the state of the engine and returns the response and the new state.
\<close>

record 's AndroidKeymaster =
  AddRngEntropy :: "AddEntropyRequest \<Rightarrow> 's \<Rightarrow> KeymasterResponse \<times> 's"
  GenerateKey :: "GenerateKeyRequest \<Rightarrow> 's \<Rightarrow> GenerateKeyResponse \<times> 's"
  ImportKey :: "ImportKeyRequest \<Rightarrow> 's \<Rightarrow> GenerateKeyResponse \<times> 's"
  ImportWrappedKey :: "ImportWrappedKeyRequest \<Rightarrow> 's \<Rightarrow> GenerateKeyResponse \<times> 's"
  UpgradeKey :: "UpgradeKeyRequest \<Rightarrow> 's \<Rightarrow> UpgradeKeyResponse \<times> 's"
  GetKeyCharacteristics ::
    "GetKeyCharacteristicsRequest \<Rightarrow> 's \<Rightarrow> GetKeyCharacteristicsResponse \<times> 's"
  BeginOperation :: "BeginOperationRequest \<Rightarrow> 's \<Rightarrow> BeginOperationResponse \<times> 's"
  AbortOperation :: "keymaster_operation_handle_t \<Rightarrow> 's \<Rightarrow> KeymasterResponse \<times> 's"

section \<open>The device: \<^verbatim>\<open>AndroidKeyMintDevice\<close>\<close>

definition kOperationTableSize :: nat where
  "kOperationTableSize = 16"

text \<open>The members \<^verbatim>\<open>impl_\<close> (the state of the engine) and \<^verbatim>\<open>securityLevel_\<close> of the device.\<close>

record 's AndroidKeyMintDevice =
  m_impl :: 's
  m_securityLevel :: SecurityLevel

record Certificate =
  encodedCertificate :: "byte list"

record AttestationKey =
  keyBlob :: "byte list"
  attestKeyParams :: "KeyParameter list"
  issuerSubjectName :: "byte list"

text \<open>
  \<^verbatim>\<open>KeyCreationResult\<close>; its key blob is the field \<open>keyBlob\<close> of the source, written
  \<open>KeyCreationResult.keyBlob\<close> where \<open>AttestationKey.keyBlob\<close> is meant otherwise.
\<close>

record KeyCreationResult =
  keyBlob :: "byte list"
  keyCharacteristics :: "KeyCharacteristics list"
  certificateChain :: "Certificate list"

record BeginResult =
  params :: "KeyParameter list"
  challenge :: "64 word"
  operation :: "keymaster_operation_handle_t option"

definition convertCertificate :: "byte list \<Rightarrow> Certificate" where
  "convertCertificate cert = \<lparr>encodedCertificate = cert\<rparr>"

definition convertCertificateChain :: "byte list list \<Rightarrow> Certificate list" where
  "convertCertificateChain chain = map convertCertificate chain"

definition addClientAndAppData :: "byte list \<Rightarrow> byte list \<Rightarrow> AuthorizationSet" where
  "addClientAndAppData appId appData =
    (let params = [];
         params = (if length appId \<noteq> 0
                   then push_back params \<lparr>tag = KM_TAG_APPLICATION_ID, pvalue = blob appId\<rparr>
                   else params);
         params = (if length appData \<noteq> 0
                   then push_back params \<lparr>tag = KM_TAG_APPLICATION_DATA, pvalue = blob appData\<rparr>
                   else params)
     in params)"

text \<open>
  A method of the device takes the methods of the engine, the device and its arguments, the
  out-parameter among them with the value that the caller left in it, and returns the
  status, the out-parameter and the device. A call in which a \<^verbatim>\<open>CHECK\<close> fails returns
  \<open>Inl CHECK_failed\<close>.
\<close>

definition addRngEntropy ::
  "'s AndroidKeymaster \<Rightarrow> 's AndroidKeyMintDevice \<Rightarrow> byte list
     \<Rightarrow> ScopedAStatus \<times> 's AndroidKeyMintDevice" where
  "addRngEntropy km dev data =
    (if length data = 0 then (ok, dev)
     else
       (let request = \<lparr>random_data = data\<rparr>;
            (response, impl') = AddRngEntropy km request (m_impl dev)
        in (kmError2ScopedAStatus (error response), dev\<lparr>m_impl := impl'\<rparr>)))"

text \<open>The request that \<^verbatim>\<open>generateKey\<close> builds.\<close>

definition generateKey_request :: "KeyParameter list \<Rightarrow> AttestationKey option \<Rightarrow> GenerateKeyRequest" where
  "generateKey_request keyParams attestationKey =
    (let request = \<lparr>key_description = KmParamSet keyParams, attestation_signing_key_blob = [],
                      attest_key_params = [], issuer_subject = []\<rparr>
     in case attestationKey of
          None \<Rightarrow> request
        | Some k \<Rightarrow> request\<lparr>attestation_signing_key_blob := AttestationKey.keyBlob k,
                            attest_key_params := KmParamSet (attestKeyParams k),
                            issuer_subject := issuerSubjectName k\<rparr>)"

definition generateKey ::
  "'s AndroidKeymaster \<Rightarrow> 's AndroidKeyMintDevice \<Rightarrow> KeyParameter list \<Rightarrow> AttestationKey option
     \<Rightarrow> KeyCreationResult \<Rightarrow> fault + ScopedAStatus \<times> KeyCreationResult \<times> 's AndroidKeyMintDevice" where
  "generateKey km dev keyParams attestationKey creationResult =
    (let request = generateKey_request keyParams attestationKey;
         (response, impl') = GenerateKey km request (m_impl dev);
         dev' = dev\<lparr>m_impl := impl'\<rparr>
     in if error response \<noteq> KM_ERROR_OK
        then Inr (kmError2ScopedAStatus (error response), creationResult, dev')
        else
          (case convertKeyCharacteristics (m_securityLevel dev) (key_description request)
                  (unenforced response) (enforced response) True of
             Inl f \<Rightarrow> Inl f
           | Inr characteristics \<Rightarrow>
               Inr (ok,
                    creationResult\<lparr>KeyCreationResult.keyBlob := kmBlob2vector (key_blob response),
                                   keyCharacteristics := characteristics,
                                   certificateChain :=
                                     convertCertificateChain (certificate_chain response)\<rparr>,
                    dev')))"

definition importKey_request ::
  "KeyParameter list \<Rightarrow> KeyFormat \<Rightarrow> byte list \<Rightarrow> AttestationKey option \<Rightarrow> ImportKeyRequest" where
  "importKey_request keyParams keyFormat keyData attestationKey =
    (let request = \<lparr>key_description = KmParamSet keyParams, attestation_signing_key_blob = [],
                      attest_key_params = [], issuer_subject = [],
                      key_format = legacy_enum_conversion keyFormat, key_data = keyData\<rparr>
     in case attestationKey of
          None \<Rightarrow> request
        | Some k \<Rightarrow> request\<lparr>attestation_signing_key_blob := AttestationKey.keyBlob k,
                            attest_key_params := KmParamSet (attestKeyParams k),
                            issuer_subject := issuerSubjectName k\<rparr>)"

definition importKey ::
  "'s AndroidKeymaster \<Rightarrow> 's AndroidKeyMintDevice \<Rightarrow> KeyParameter list \<Rightarrow> KeyFormat \<Rightarrow> byte list
     \<Rightarrow> AttestationKey option \<Rightarrow> KeyCreationResult
     \<Rightarrow> fault + ScopedAStatus \<times> KeyCreationResult \<times> 's AndroidKeyMintDevice" where
  "importKey km dev keyParams keyFormat keyData attestationKey creationResult =
    (let request = importKey_request keyParams keyFormat keyData attestationKey;
         (response, impl') = ImportKey km request (m_impl dev);
         dev' = dev\<lparr>m_impl := impl'\<rparr>
     in if error response \<noteq> KM_ERROR_OK
        then Inr (kmError2ScopedAStatus (error response), creationResult, dev')
        else
          (case convertKeyCharacteristics (m_securityLevel dev) (key_description request)
                  (unenforced response) (enforced response) True of
             Inl f \<Rightarrow> Inl f
           | Inr characteristics \<Rightarrow>
               Inr (ok,
                    creationResult\<lparr>KeyCreationResult.keyBlob := kmBlob2vector (key_blob response),
                                   keyCharacteristics := characteristics,
                                   certificateChain :=
                                     convertCertificateChain (certificate_chain response)\<rparr>,
                    dev')))"

definition importWrappedKey_request ::
  "byte list \<Rightarrow> byte list \<Rightarrow> byte list \<Rightarrow> KeyParameter list \<Rightarrow> 64 word \<Rightarrow> 64 word
     \<Rightarrow> ImportWrappedKeyRequest" where
  "importWrappedKey_request wrappedKeyData wrappingKeyBlob maskingKey unwrappingParams
       passwordSid biometricSid =
    \<lparr>wrapped_key = wrappedKeyData, wrapping_key = wrappingKeyBlob, masking_key = maskingKey,
     unwrapping_params = KmParamSet unwrappingParams,
     password_sid = passwordSid, biometric_sid = biometricSid\<rparr>"

definition importWrappedKey ::
  "'s AndroidKeymaster \<Rightarrow> 's AndroidKeyMintDevice \<Rightarrow> byte list \<Rightarrow> byte list \<Rightarrow> byte list
     \<Rightarrow> KeyParameter list \<Rightarrow> 64 word \<Rightarrow> 64 word \<Rightarrow> KeyCreationResult
     \<Rightarrow> fault + ScopedAStatus \<times> KeyCreationResult \<times> 's AndroidKeyMintDevice" where
  "importWrappedKey km dev wrappedKeyData wrappingKeyBlob maskingKey unwrappingParams
       passwordSid biometricSid creationResult =
    (let request = importWrappedKey_request wrappedKeyData wrappingKeyBlob maskingKey
                     unwrappingParams passwordSid biometricSid;
         (response, impl') = ImportWrappedKey km request (m_impl dev);
         dev' = dev\<lparr>m_impl := impl'\<rparr>
     in if error response \<noteq> KM_ERROR_OK
        then Inr (kmError2ScopedAStatus (error response), creationResult, dev')
        else
          (case convertKeyCharacteristics (m_securityLevel dev) (unwrapping_params request)
                  (unenforced response) (enforced response) True of
             Inl f \<Rightarrow> Inl f
           | Inr characteristics \<Rightarrow>
               Inr (ok,
                    creationResult\<lparr>KeyCreationResult.keyBlob := kmBlob2vector (key_blob response),
                                   keyCharacteristics := characteristics,
                                   certificateChain :=
                                     convertCertificateChain (certificate_chain response)\<rparr>,
                    dev')))"

definition upgradeKey_request :: "byte list \<Rightarrow> KeyParameter list \<Rightarrow> UpgradeKeyRequest" where
  "upgradeKey_request keyBlobToUpgrade upgradeParams =
    \<lparr>upgrade_key_material = keyBlobToUpgrade, upgrade_params = KmParamSet upgradeParams\<rparr>"

definition upgradeKey ::
  "'s AndroidKeymaster \<Rightarrow> 's AndroidKeyMintDevice \<Rightarrow> byte list \<Rightarrow> KeyParameter list \<Rightarrow> byte list
     \<Rightarrow> ScopedAStatus \<times> byte list \<times> 's AndroidKeyMintDevice" where
  "upgradeKey km dev keyBlobToUpgrade upgradeParams keyBlob_out =
    (let request = upgradeKey_request keyBlobToUpgrade upgradeParams;
         (response, impl') = UpgradeKey km request (m_impl dev);
         dev' = dev\<lparr>m_impl := impl'\<rparr>
     in if error response \<noteq> KM_ERROR_OK
        then (kmError2ScopedAStatus (error response), keyBlob_out, dev')
        else (ok, kmBlob2vector (upgraded_key response), dev'))"

definition getKeyCharacteristics_request ::
  "byte list \<Rightarrow> byte list \<Rightarrow> byte list \<Rightarrow> GetKeyCharacteristicsRequest" where
  "getKeyCharacteristics_request keyBlob_in appId appData =
    \<lparr>key_material = keyBlob_in, additional_params = addClientAndAppData appId appData\<rparr>"

definition getKeyCharacteristics ::
  "'s AndroidKeymaster \<Rightarrow> 's AndroidKeyMintDevice \<Rightarrow> byte list \<Rightarrow> byte list \<Rightarrow> byte list
     \<Rightarrow> KeyCharacteristics list
     \<Rightarrow> fault + ScopedAStatus \<times> KeyCharacteristics list \<times> 's AndroidKeyMintDevice" where
  "getKeyCharacteristics km dev keyBlob_in appId appData keyCharacteristics_out =
    (let request = getKeyCharacteristics_request keyBlob_in appId appData;
         (response, impl') = GetKeyCharacteristics km request (m_impl dev);
         dev' = dev\<lparr>m_impl := impl'\<rparr>
     in if error response \<noteq> KM_ERROR_OK
        then Inr (kmError2ScopedAStatus (error response), keyCharacteristics_out, dev')
        else
          (let emptySet = [] in
           case convertKeyCharacteristics (m_securityLevel dev) emptySet
                  (unenforced response) (enforced response) False of
             Inl f \<Rightarrow> Inl f
           | Inr characteristics \<Rightarrow> Inr (ok, characteristics, dev')))"

text \<open>
  \<^verbatim>\<open>AndroidKeyMintDevice::begin\<close>. \<^verbatim>\<open>authToken2AidlVec\<close> of \<^verbatim>\<open>KeyMintUtils\<close>, which
  serialises the optional token, is a parameter. The operation object that the method makes
  is represented by the handle it holds.
\<close>

definition begin_request ::
  "('t option \<Rightarrow> byte list) \<Rightarrow> KeyPurpose \<Rightarrow> byte list \<Rightarrow> KeyParameter list \<Rightarrow> 't option
     \<Rightarrow> BeginOperationRequest" where
  "begin_request authToken2AidlVec purpose_in keyBlob_in params_in authToken =
    (let vector_token = authToken2AidlVec authToken
     in \<lparr>key_material = keyBlob_in,
         additional_params = push_back (KmParamSet params_in)
             \<lparr>tag = KM_TAG_AUTH_TOKEN, pvalue = blob vector_token\<rparr>,
         purpose = legacy_enum_conversion purpose_in\<rparr>)"

definition begin_operation ::
  "'s AndroidKeymaster \<Rightarrow> ('t option \<Rightarrow> byte list) \<Rightarrow> 's AndroidKeyMintDevice \<Rightarrow> KeyPurpose
     \<Rightarrow> byte list \<Rightarrow> KeyParameter list \<Rightarrow> 't option \<Rightarrow> BeginResult
     \<Rightarrow> ScopedAStatus \<times> BeginResult \<times> 's AndroidKeyMintDevice" where
  "begin_operation km authToken2AidlVec dev purpose_in keyBlob_in params_in authToken result =
    (let request = begin_request authToken2AidlVec purpose_in keyBlob_in params_in authToken;
         (response, impl') = BeginOperation km request (m_impl dev);
         dev' = dev\<lparr>m_impl := impl'\<rparr>
     in if error response \<noteq> KM_ERROR_OK
        then (kmError2ScopedAStatus (error response), result, dev')
        else (ok,
              result\<lparr>params := kmParamSet2Aidl (output_params response),
                     challenge := op_handle response,
                     operation := Some (op_handle response)\<rparr>,
              dev'))"

text \<open>A sequence of \<^verbatim>\<open>begin\<close> calls, each with a fresh out-parameter; the statuses in order.\<close>

fun begin_calls ::
  "'s AndroidKeymaster \<Rightarrow> ('t option \<Rightarrow> byte list) \<Rightarrow> 's AndroidKeyMintDevice
     \<Rightarrow> (KeyPurpose \<times> byte list \<times> KeyParameter list \<times> 't option) list
     \<Rightarrow> ScopedAStatus list \<times> 's AndroidKeyMintDevice" where
  "begin_calls km ser dev [] = ([], dev)"
| "begin_calls km ser dev ((p, kb, ps, tok) # calls) =
    (let (st, res, dev') = begin_operation km ser dev p kb ps tok
                             \<lparr>params = [], challenge = 0, operation = None\<rparr>;
         (sts, dev'') = begin_calls km ser dev' calls
     in (st # sts, dev''))"

section \<open>The operation table of the engine\<close>

text \<open>
  Modelled from the spec: the operation table of the engine and the engine's
  \<^verbatim>\<open>BeginOperation\<close> and \<^verbatim>\<open>AbortOperation\<close>, and the \<^verbatim>\<open>abort\<close> of the operation object, are
  code of files that are not at hand. The spec: \<^verbatim>\<open>begin\<close> allocates an entry in a bounded
  operation table of fixed capacity; exceeding the capacity fails with a resource-exhaustion
  error and evicts nothing; aborting an operation removes it from the table at once. The
  source gives the capacity, \<^verbatim>\<open>kOperationTableSize\<close>, to the constructor of the engine. What
  else the engine checks of a request (key, purpose, authorisation) and how it picks a
  handle are parameters: \<open>admit\<close> returns the error of those checks and the output
  parameters, \<open>fresh\<close> the handle for the new entry.
\<close>

record OperationTable =
  table_size :: nat
  table :: "keymaster_operation_handle_t list"

definition OperationTable_new :: "nat \<Rightarrow> OperationTable" where
  "OperationTable_new n = \<lparr>table_size = n, table = []\<rparr>"

definition OperationTable_Add ::
  "keymaster_operation_handle_t \<Rightarrow> OperationTable \<Rightarrow> keymaster_error_t \<times> OperationTable" where
  "OperationTable_Add h t =
    (if length (table t) < table_size t then (KM_ERROR_OK, t\<lparr>table := table t @ [h]\<rparr>)
     else (KM_ERROR_TOO_MANY_OPERATIONS, t))"

definition OperationTable_Delete ::
  "keymaster_operation_handle_t \<Rightarrow> OperationTable \<Rightarrow> keymaster_error_t \<times> OperationTable" where
  "OperationTable_Delete h t =
    (if h \<in> set (table t) then (KM_ERROR_OK, t\<lparr>table := removeAll h (table t)\<rparr>)
     else (KM_ERROR_INVALID_OPERATION_HANDLE, t))"

definition spec_BeginOperation ::
  "(BeginOperationRequest \<Rightarrow> keymaster_error_t \<times> AuthorizationSet)
     \<Rightarrow> (keymaster_operation_handle_t list \<Rightarrow> keymaster_operation_handle_t)
     \<Rightarrow> BeginOperationRequest \<Rightarrow> OperationTable \<Rightarrow> BeginOperationResponse \<times> OperationTable" where
  "spec_BeginOperation admit fresh request t =
    (let (e, out_params) = admit request in
     if e \<noteq> KM_ERROR_OK then (\<lparr>error = e, output_params = [], op_handle = 0\<rparr>, t)
     else
       (let h = fresh (table t);
            (e', t') = OperationTable_Add h t
        in if e' \<noteq> KM_ERROR_OK then (\<lparr>error = e', output_params = [], op_handle = 0\<rparr>, t)
           else (\<lparr>error = KM_ERROR_OK, output_params = out_params, op_handle = h\<rparr>, t')))"

definition spec_AbortOperation ::
  "keymaster_operation_handle_t \<Rightarrow> OperationTable \<Rightarrow> KeymasterResponse \<times> OperationTable" where
  "spec_AbortOperation h t = (let (e, t') = OperationTable_Delete h t in (\<lparr>error = e\<rparr>, t'))"

definition abort_operation ::
  "'s AndroidKeymaster \<Rightarrow> 's AndroidKeyMintDevice \<Rightarrow> keymaster_operation_handle_t
     \<Rightarrow> ScopedAStatus \<times> 's AndroidKeyMintDevice" where
  "abort_operation km dev h =
    (let (response, impl') = AbortOperation km h (m_impl dev)
     in (kmError2ScopedAStatus (error response), dev\<lparr>m_impl := impl'\<rparr>))"

text \<open>The device as its constructor leaves it, over an engine with this table.\<close>

definition CreateKeyMintDevice :: "SecurityLevel \<Rightarrow> OperationTable AndroidKeyMintDevice" where
  "CreateKeyMintDevice securityLevel_in =
    \<lparr>m_impl = OperationTable_new kOperationTableSize, m_securityLevel = securityLevel_in\<rparr>"

section \<open>An engine for the examples\<close>

text \<open>
  Every method of \<open>example_engine step e hw sw\<close> answers with the error \<open>e\<close>, the enforced set
  \<open>hw\<close> and the unenforced set \<open>sw\<close>, and applies \<open>step\<close> to the state of the engine; with
  \<open>Suc\<close> for \<open>step\<close> the state counts the calls that reached the engine.
\<close>

definition example_response :: "keymaster_error_t \<Rightarrow> AuthorizationSet \<Rightarrow> AuthorizationSet \<Rightarrow> GenerateKeyResponse" where
  "example_response e hw sw =
    \<lparr>error = e, enforced = hw, unenforced = sw, key_blob = [1, 2, 3], certificate_chain = [[4]]\<rparr>"

definition example_engine ::
  "('s \<Rightarrow> 's) \<Rightarrow> keymaster_error_t \<Rightarrow> AuthorizationSet \<Rightarrow> AuthorizationSet \<Rightarrow> 's AndroidKeymaster" where
  "example_engine step e hw sw =
    \<lparr>AddRngEntropy = (\<lambda>request s. (\<lparr>error = e\<rparr>, step s)),
     GenerateKey = (\<lambda>request s. (example_response e hw sw, step s)),
     ImportKey = (\<lambda>request s. (example_response e hw sw, step s)),
     ImportWrappedKey = (\<lambda>request s. (example_response e hw sw, step s)),
     UpgradeKey = (\<lambda>request s. (\<lparr>error = e, upgraded_key = [5, 6]\<rparr>, step s)),
     GetKeyCharacteristics =
       (\<lambda>request s. (\<lparr>error = e, enforced = hw, unenforced = sw\<rparr>, step s)),
     BeginOperation =
       (\<lambda>request s. (\<lparr>error = e, output_params = [], op_handle = 0\<rparr>, step s)),
     AbortOperation = (\<lambda>h s. (\<lparr>error = e\<rparr>, step s))\<rparr>"

text \<open>
  The example engine with the operation table of the spec: its \<^verbatim>\<open>BeginOperation\<close> and
  \<^verbatim>\<open>AbortOperation\<close> are those above, its state is the table.
\<close>

definition table_engine ::
  "(BeginOperationRequest \<Rightarrow> keymaster_error_t \<times> AuthorizationSet)
     \<Rightarrow> (keymaster_operation_handle_t list \<Rightarrow> keymaster_operation_handle_t)
     \<Rightarrow> OperationTable AndroidKeymaster" where
  "table_engine admit fresh =
    (example_engine id KM_ERROR_OK [] [])
      \<lparr>BeginOperation := spec_BeginOperation admit fresh, AbortOperation := spec_AbortOperation\<rparr>"

section \<open>The classification, equation by equation\<close>

lemma switch_entry_Registry:
  "switch_entry R e (km, ks) =
     (case Registry (tag e) of
        Invalid \<Rightarrow> Inl CHECK_failed
      | HardwareEnforced \<Rightarrow> Inr (km\<lparr>authorizations := authorizations km @ [e]\<rparr>, ks)
      | KeystoreEnforced \<Rightarrow> Inr (km, ks\<lparr>authorizations := authorizations ks @ [e]\<rparr>)
      | ConditionalKeystore \<Rightarrow>
          (if Contains R (tag e) then Inr (km, ks\<lparr>authorizations := authorizations ks @ [e]\<rparr>)
           else Inr (km, ks))
      | _ \<Rightarrow> Inr (km, ks))"
  by (cases "tag e") (simp_all add: switch_entry_def Let_def push_back_def kmParam2Aidl_def)

lemma for_sw_enforced_result:
  "for_sw_enforced R S (km, ks) =
     (if has_Invalid S then Inl CHECK_failed
      else Inr (km\<lparr>authorizations := authorizations km @ keyMint_part S\<rparr>,
                ks\<lparr>authorizations := authorizations ks @ keystore_part R S\<rparr>))"
proof (induction S arbitrary: km ks)
  case Nil
  show ?case by (simp add: has_Invalid_def keyMint_part_def keystore_part_def)
next
  case (Cons e S)
  show ?case
    by (cases "Registry (tag e)")
       (simp_all add: switch_entry_Registry Cons.IH has_Invalid_def keyMint_part_def keystore_part_def)
qed

lemma convert_SOFTWARE:
  "convertKeyCharacteristics SOFTWARE R S H inc =
     (if H \<noteq> [] \<or> has_Invalid S then Inl CHECK_failed
      else Inr ((if keyMint_part S = [] then []
                 else [\<lparr>securityLevel = SOFTWARE, authorizations = keyMint_part S\<rparr>]) @
                (if inc \<and> keystore_part R S \<noteq> []
                 then [\<lparr>securityLevel = KEYSTORE, authorizations = keystore_part R S\<rparr>] else [])))"
  by (simp add: convertKeyCharacteristics_def for_sw_enforced_result push_back_def Let_def)

lemma kmParamSet2Aidl_id: "kmParamSet2Aidl ps = ps"
  by (induction ps) (simp_all add: kmParamSet2Aidl_def kmParam2Aidl_def)

lemma convert_not_SOFTWARE:
  "lvl \<noteq> SOFTWARE \<Longrightarrow> convertKeyCharacteristics lvl R S H inc =
     Inr (\<lparr>securityLevel = lvl, authorizations = H\<rparr> #
          (if inc \<and> S \<noteq> [] then [\<lparr>securityLevel = KEYSTORE, authorizations = S\<rparr>] else []))"
  by (simp add: convertKeyCharacteristics_def kmParamSet2Aidl_id Let_def)

lemma part_facts:
  "set (keyMint_part S) \<subseteq> set S"
  "set (keystore_part R S) \<subseteq> set S"
  "p \<in> set (keyMint_part S) \<Longrightarrow> Registry (tag p) = HardwareEnforced"
  "p \<in> set (keystore_part R S) \<Longrightarrow> Registry (tag p) = KeystoreEnforced \<or>
     Registry (tag p) = ConditionalKeystore \<and> Contains R (tag p)"
  by (auto simp: keyMint_part_def keystore_part_def)

text \<open>
  Claim C1. At security level \<^verbatim>\<open>SOFTWARE\<close> the KeyMint entry of the output carries the
  level \<^verbatim>\<open>SOFTWARE\<close>: it is the hardware-domain entry of the spec. For every requested set
  \<open>R\<close>, software-enforced set \<open>S\<close>, hardware-enforced set and flag, when the classification
  returns \<open>out\<close>: every entry of \<open>out\<close> has the level \<^verbatim>\<open>SOFTWARE\<close> or \<^verbatim>\<open>KEYSTORE\<close>; every
  parameter of the \<^verbatim>\<open>SOFTWARE\<close> entry is in \<open>S\<close> and its tag is classified
  \<open>HardwareEnforced\<close>; every parameter of the \<^verbatim>\<open>KEYSTORE\<close> entry is in \<open>S\<close> and its tag is
  classified \<open>KeystoreEnforced\<close>, or \<open>ConditionalKeystore\<close> with the tag present in \<open>R\<close>; no
  tag occurs in two entries of different levels; and no tag classified \<open>Excluded\<close>,
  \<open>NotCharacteristic\<close> or \<open>Unimplemented\<close> occurs in any entry.
\<close>

theorem software_classification_sound:
  assumes "convertKeyCharacteristics SOFTWARE R S H inc = Inr out"
  shows "(\<forall>kc \<in> set out. securityLevel kc = SOFTWARE \<or> securityLevel kc = KEYSTORE) \<and>
         (\<forall>kc \<in> set out. \<forall>p \<in> set (authorizations kc).
            securityLevel kc = SOFTWARE \<longrightarrow>
              p \<in> set S \<and> Registry (tag p) = HardwareEnforced) \<and>
         (\<forall>kc \<in> set out. \<forall>p \<in> set (authorizations kc).
            securityLevel kc = KEYSTORE \<longrightarrow>
              p \<in> set S \<and> (Registry (tag p) = KeystoreEnforced \<or>
                 Registry (tag p) = ConditionalKeystore \<and> Contains R (tag p))) \<and>
         (\<forall>kc \<in> set out. \<forall>kc' \<in> set out. securityLevel kc \<noteq> securityLevel kc' \<longrightarrow>
            tag ` set (authorizations kc) \<inter> tag ` set (authorizations kc') = {}) \<and>
         (\<forall>kc \<in> set out. \<forall>p \<in> set (authorizations kc).
            Registry (tag p) \<noteq> Excluded \<and> Registry (tag p) \<noteq> NotCharacteristic \<and>
            Registry (tag p) \<noteq> Unimplemented)"
proof -
  let ?hw = "keyMint_part S" and ?ks = "keystore_part R S"
  from assms have out: "out =
      (if ?hw = [] then [] else [\<lparr>securityLevel = SOFTWARE, authorizations = ?hw\<rparr>]) @
      (if inc \<and> ?ks \<noteq> [] then [\<lparr>securityLevel = KEYSTORE, authorizations = ?ks\<rparr>] else [])"
    unfolding convert_SOFTWARE by (cases "H \<noteq> [] \<or> has_Invalid S") auto
  have cases_kc: "securityLevel kc = SOFTWARE \<and> authorizations kc = ?hw \<or>
      securityLevel kc = KEYSTORE \<and> authorizations kc = ?ks" if "kc \<in> set out" for kc
    using that unfolding out by (auto split: if_splits)
  have hw: "p \<in> set S \<and> Registry (tag p) = HardwareEnforced" if "p \<in> set ?hw" for p
    using that part_facts(1,3) by blast
  have ks: "p \<in> set S \<and> (Registry (tag p) = KeystoreEnforced \<or>
      Registry (tag p) = ConditionalKeystore \<and> Contains R (tag p))" if "p \<in> set ?ks" for p
    using that part_facts(2,4) by blast
  have disj: "tag ` set ?hw \<inter> tag ` set ?ks = {}"
  proof -
    have False if "p \<in> set ?hw" "q \<in> set ?ks" "tag p = tag q" for p q
      using hw [OF that(1)] ks [OF that(2)] that(3) by auto
    then show ?thesis by blast
  qed
  have c1: "\<forall>kc \<in> set out. securityLevel kc = SOFTWARE \<or> securityLevel kc = KEYSTORE"
    using cases_kc by blast
  have c2: "\<forall>kc \<in> set out. \<forall>p \<in> set (authorizations kc).
      securityLevel kc = SOFTWARE \<longrightarrow> p \<in> set S \<and> Registry (tag p) = HardwareEnforced"
    using cases_kc hw by fastforce
  have c3: "\<forall>kc \<in> set out. \<forall>p \<in> set (authorizations kc).
      securityLevel kc = KEYSTORE \<longrightarrow>
        p \<in> set S \<and> (Registry (tag p) = KeystoreEnforced \<or>
           Registry (tag p) = ConditionalKeystore \<and> Contains R (tag p))"
    using cases_kc ks by fastforce
  have c4: "\<forall>kc \<in> set out. \<forall>kc' \<in> set out. securityLevel kc \<noteq> securityLevel kc' \<longrightarrow>
      tag ` set (authorizations kc) \<inter> tag ` set (authorizations kc') = {}"
  proof (intro ballI impI)
    fix kc kc' assume a: "kc \<in> set out" "kc' \<in> set out" "securityLevel kc \<noteq> securityLevel kc'"
    from cases_kc [OF a(1)] cases_kc [OF a(2)] a(3) disj
    show "tag ` set (authorizations kc) \<inter> tag ` set (authorizations kc') = {}"
      by (elim disjE conjE) (simp_all add: Int_commute)
  qed
  have c5: "\<forall>kc \<in> set out. \<forall>p \<in> set (authorizations kc).
      Registry (tag p) \<noteq> Excluded \<and> Registry (tag p) \<noteq> NotCharacteristic \<and>
      Registry (tag p) \<noteq> Unimplemented"
  proof (intro ballI)
    fix kc p assume a: "kc \<in> set out" "p \<in> set (authorizations kc)"
    from cases_kc [OF a(1)] a(2) have "p \<in> set ?hw \<or> p \<in> set ?ks" by auto
    then show "Registry (tag p) \<noteq> Excluded \<and> Registry (tag p) \<noteq> NotCharacteristic \<and>
      Registry (tag p) \<noteq> Unimplemented"
      using hw ks by fastforce
  qed
  from c1 c2 c3 c4 c5 show ?thesis by blast
qed

theorem software_classification_sound_witness:
  "convertKeyCharacteristics SOFTWARE
      [\<lparr>tag = KM_TAG_CREATION_DATETIME, pvalue = date_time 5\<rparr>]
      [\<lparr>tag = KM_TAG_ALGORITHM, pvalue = enumerated 32\<rparr>,
       \<lparr>tag = KM_TAG_USER_ID, pvalue = integer 7\<rparr>,
       \<lparr>tag = KM_TAG_CREATION_DATETIME, pvalue = date_time 9\<rparr>,
       \<lparr>tag = KM_TAG_NONCE, pvalue = blob [1]\<rparr>] [] True =
     Inr [\<lparr>securityLevel = SOFTWARE,
            authorizations = [\<lparr>tag = KM_TAG_ALGORITHM, pvalue = enumerated 32\<rparr>]\<rparr>,
          \<lparr>securityLevel = KEYSTORE,
            authorizations = [\<lparr>tag = KM_TAG_USER_ID, pvalue = integer 7\<rparr>,
                              \<lparr>tag = KM_TAG_CREATION_DATETIME, pvalue = date_time 9\<rparr>]\<rparr>] \<and>
   Registry KM_TAG_ALGORITHM = HardwareEnforced \<and> Registry KM_TAG_USER_ID = KeystoreEnforced \<and>
   Registry KM_TAG_CREATION_DATETIME = ConditionalKeystore \<and>
   Contains [\<lparr>tag = KM_TAG_CREATION_DATETIME, pvalue = date_time 5\<rparr>] KM_TAG_CREATION_DATETIME"
proof -
  have run: "convertKeyCharacteristics SOFTWARE
      [\<lparr>tag = KM_TAG_CREATION_DATETIME, pvalue = date_time 5\<rparr>]
      [\<lparr>tag = KM_TAG_ALGORITHM, pvalue = enumerated 32\<rparr>,
       \<lparr>tag = KM_TAG_USER_ID, pvalue = integer 7\<rparr>,
       \<lparr>tag = KM_TAG_CREATION_DATETIME, pvalue = date_time 9\<rparr>,
       \<lparr>tag = KM_TAG_NONCE, pvalue = blob [1]\<rparr>] [] True =
     Inr [\<lparr>securityLevel = SOFTWARE,
            authorizations = [\<lparr>tag = KM_TAG_ALGORITHM, pvalue = enumerated 32\<rparr>]\<rparr>,
          \<lparr>securityLevel = KEYSTORE,
            authorizations = [\<lparr>tag = KM_TAG_USER_ID, pvalue = integer 7\<rparr>,
                              \<lparr>tag = KM_TAG_CREATION_DATETIME, pvalue = date_time 9\<rparr>]\<rparr>]"
    by (simp add: convertKeyCharacteristics_def switch_entry_def Contains_def push_back_def
          kmParam2Aidl_def Let_def)
  from software_classification_sound [OF run] run show ?thesis
    by (simp add: Contains_def)
qed

text \<open>
  Claim C2. At every security level other than \<^verbatim>\<open>SOFTWARE\<close> the classification returns,
  whatever the tags are: first the entry of that level with the hardware-enforced set as it
  came, in its order; then, when \<^verbatim>\<open>include_keystore_enforced\<close> is true and the
  software-enforced set is not empty, the \<^verbatim>\<open>KEYSTORE\<close> entry with the software-enforced set
  as it came; and no \<^verbatim>\<open>KEYSTORE\<close> entry when the flag is false (or the set is empty, where
  an absent entry and the set agree).
\<close>

theorem hardware_level_passthrough:
  assumes "lvl \<noteq> SOFTWARE"
  shows "convertKeyCharacteristics lvl R S H inc =
     Inr (\<lparr>securityLevel = lvl, authorizations = H\<rparr> #
          (if inc \<and> S \<noteq> [] then [\<lparr>securityLevel = KEYSTORE, authorizations = S\<rparr>] else []))"
  using assms by (rule convert_not_SOFTWARE)

theorem hardware_level_passthrough_witness:
  "STRONGBOX \<noteq> SOFTWARE \<and>
   convertKeyCharacteristics STRONGBOX []
      [\<lparr>tag = KM_TAG_NONCE, pvalue = blob [1]\<rparr>, \<lparr>tag = KM_TAG_INVALID, pvalue = integer 0\<rparr>]
      [\<lparr>tag = KM_TAG_USER_ID, pvalue = integer 7\<rparr>] True =
     Inr [\<lparr>securityLevel = STRONGBOX,
            authorizations = [\<lparr>tag = KM_TAG_USER_ID, pvalue = integer 7\<rparr>]\<rparr>,
          \<lparr>securityLevel = KEYSTORE,
            authorizations = [\<lparr>tag = KM_TAG_NONCE, pvalue = blob [1]\<rparr>,
                              \<lparr>tag = KM_TAG_INVALID, pvalue = integer 0\<rparr>]\<rparr>] \<and>
   convertKeyCharacteristics STRONGBOX []
      [\<lparr>tag = KM_TAG_NONCE, pvalue = blob [1]\<rparr>, \<lparr>tag = KM_TAG_INVALID, pvalue = integer 0\<rparr>]
      [\<lparr>tag = KM_TAG_USER_ID, pvalue = integer 7\<rparr>] False =
     Inr [\<lparr>securityLevel = STRONGBOX,
            authorizations = [\<lparr>tag = KM_TAG_USER_ID, pvalue = integer 7\<rparr>]\<rparr>]"
proof -
  have ne: "STRONGBOX \<noteq> SOFTWARE" by simp
  show ?thesis
    using hardware_level_passthrough [OF ne, of "[]" _ _ True] hardware_level_passthrough [OF ne, of "[]" _ _ False] by simp
qed

text \<open>
  Claim C3 says that with a security level other than \<^verbatim>\<open>SOFTWARE\<close> a non-empty
  hardware-enforced set is a fatal fault. The code checks this at \<^verbatim>\<open>SOFTWARE\<close> only: at
  \<^verbatim>\<open>TRUSTED_ENVIRONMENT\<close> a non-empty hardware-enforced set is returned, and nothing fails.
\<close>

theorem non_SOFTWARE_accepts_hw_enforced:
  "TRUSTED_ENVIRONMENT \<noteq> SOFTWARE \<and>
   [\<lparr>tag = KM_TAG_ALGORITHM, pvalue = enumerated 32\<rparr>] \<noteq> [] \<and>
   convertKeyCharacteristics TRUSTED_ENVIRONMENT [] []
      [\<lparr>tag = KM_TAG_ALGORITHM, pvalue = enumerated 32\<rparr>] True =
     Inr [\<lparr>securityLevel = TRUSTED_ENVIRONMENT,
            authorizations = [\<lparr>tag = KM_TAG_ALGORITHM, pvalue = enumerated 32\<rparr>]\<rparr>]"
  by (simp add: convertKeyCharacteristics_def kmParamSet2Aidl_def kmParam2Aidl_def Let_def)

text \<open>
  Claim C3, amended. With the security level \<^verbatim>\<open>SOFTWARE\<close> the hardware-enforced set is
  expected to be empty, and a non-empty one fails the \<^verbatim>\<open>CHECK\<close>, which is fatal; with any
  other level no set fails a check, and the hardware-enforced set is returned as the first
  entry.
\<close>

theorem hw_enforced_check_at_SOFTWARE_only:
  "(H \<noteq> [] \<longrightarrow> convertKeyCharacteristics SOFTWARE R S H inc = Inl CHECK_failed) \<and>
   (lvl \<noteq> SOFTWARE \<longrightarrow>
      (\<exists>rest. convertKeyCharacteristics lvl R S H inc =
         Inr (\<lparr>securityLevel = lvl, authorizations = H\<rparr> # rest)))"
  by (simp add: convert_SOFTWARE convert_not_SOFTWARE)

theorem hw_enforced_check_at_SOFTWARE_only_witness:
  "[\<lparr>tag = KM_TAG_ALGORITHM, pvalue = enumerated 32\<rparr>] \<noteq> [] \<and>
   convertKeyCharacteristics SOFTWARE [] [] [\<lparr>tag = KM_TAG_ALGORITHM, pvalue = enumerated 32\<rparr>] True
     = Inl CHECK_failed \<and>
   STRONGBOX \<noteq> SOFTWARE \<and>
   (\<exists>rest. convertKeyCharacteristics STRONGBOX [] []
       [\<lparr>tag = KM_TAG_ALGORITHM, pvalue = enumerated 32\<rparr>] True =
     Inr (\<lparr>securityLevel = STRONGBOX,
            authorizations = [\<lparr>tag = KM_TAG_ALGORITHM, pvalue = enumerated 32\<rparr>]\<rparr> # rest))"
  using hw_enforced_check_at_SOFTWARE_only [of "[\<lparr>tag = KM_TAG_ALGORITHM, pvalue = enumerated 32\<rparr>]" "[]" "[]" True SOFTWARE]
        hw_enforced_check_at_SOFTWARE_only [of "[\<lparr>tag = KM_TAG_ALGORITHM, pvalue = enumerated 32\<rparr>]" "[]" "[]" True STRONGBOX]
  by simp

lemma SOFTWARE_output:
  assumes "convertKeyCharacteristics SOFTWARE R S H inc = Inr out"
  shows "out =
      (if keyMint_part S = [] then []
       else [\<lparr>securityLevel = SOFTWARE, authorizations = keyMint_part S\<rparr>]) @
      (if inc \<and> keystore_part R S \<noteq> []
       then [\<lparr>securityLevel = KEYSTORE, authorizations = keystore_part R S\<rparr>] else [])"
  using assms unfolding convert_SOFTWARE by (cases "H \<noteq> [] \<or> has_Invalid S") auto

lemma convert_output:
  assumes "convertKeyCharacteristics lvl R S H inc = Inr out"
  shows "out =
      (if lvl = SOFTWARE \<and> keyMint_part S = [] then []
       else [\<lparr>securityLevel = lvl,
              authorizations = (if lvl = SOFTWARE then keyMint_part S else H)\<rparr>]) @
      (if inc \<and> (if lvl = SOFTWARE then keystore_part R S else S) \<noteq> []
       then [\<lparr>securityLevel = KEYSTORE,
              authorizations = (if lvl = SOFTWARE then keystore_part R S else S)\<rparr>]
       else [])"
proof (cases "lvl = SOFTWARE")
  case True
  with assms have "convertKeyCharacteristics SOFTWARE R S H inc = Inr out" by simp
  from SOFTWARE_output [OF this] True show ?thesis by auto
next
  case False
  with assms show ?thesis by (auto simp: convert_not_SOFTWARE)
qed




text \<open>
  Claim C5 says that at every security level an entry with an empty tag set is left out of
  the output. At a level other than \<^verbatim>\<open>SOFTWARE\<close> the entry of the level is returned whatever
  it holds: with empty sets at \<^verbatim>\<open>TRUSTED_ENVIRONMENT\<close> the output is one entry without tags.
\<close>

theorem empty_hardware_entry_emitted:
  "convertKeyCharacteristics TRUSTED_ENVIRONMENT [] [] [] True =
     Inr [\<lparr>securityLevel = TRUSTED_ENVIRONMENT, authorizations = []\<rparr>]"
  by (simp add: convertKeyCharacteristics_def kmParamSet2Aidl_def Let_def)

text \<open>
  Claim C5, amended. For every input on which the classification returns, the output is
  the entry of the device's level, then the \<^verbatim>\<open>KEYSTORE\<close> entry, each at most once. The
  \<^verbatim>\<open>KEYSTORE\<close> entry is there exactly when it is requested and its tag set is not empty, at
  every level. The entry of the level is left out when its tag set is empty at \<^verbatim>\<open>SOFTWARE\<close>
  only; at every other level it is there, empty or not. The tag sets \<open>hw\<close> and \<open>ks\<close> are what
  the level prescribes: the routed parts of the software-enforced set at \<^verbatim>\<open>SOFTWARE\<close>, the
  sets as they came elsewhere.
\<close>

theorem output_order_and_omission:
  assumes "convertKeyCharacteristics lvl R S H inc = Inr out"
  shows "\<exists>hw ks.
     hw = (if lvl = SOFTWARE then keyMint_part S else H) \<and>
     ks = (if lvl = SOFTWARE then keystore_part R S else S) \<and>
     out = (if lvl = SOFTWARE \<and> hw = [] then []
            else [\<lparr>securityLevel = lvl, authorizations = hw\<rparr>]) @
           (if inc \<and> ks \<noteq> [] then [\<lparr>securityLevel = KEYSTORE, authorizations = ks\<rparr>] else [])"
  using convert_output [OF assms] by (cases "lvl = SOFTWARE") simp_all

theorem output_order_and_omission_witness:
  "convertKeyCharacteristics SOFTWARE []
      [\<lparr>tag = KM_TAG_USER_ID, pvalue = integer 7\<rparr>, \<lparr>tag = KM_TAG_NONCE, pvalue = blob [1]\<rparr>] [] True =
     Inr [\<lparr>securityLevel = KEYSTORE,
            authorizations = [\<lparr>tag = KM_TAG_USER_ID, pvalue = integer 7\<rparr>]\<rparr>] \<and>
   (\<exists>hw ks.
      hw = [] \<and> ks = [\<lparr>tag = KM_TAG_USER_ID, pvalue = integer 7\<rparr>] \<and>
      [\<lparr>securityLevel = KEYSTORE,
         authorizations = [\<lparr>tag = KM_TAG_USER_ID, pvalue = integer 7\<rparr>]\<rparr>] =
        (if SOFTWARE = SOFTWARE \<and> hw = [] then []
         else [\<lparr>securityLevel = SOFTWARE, authorizations = hw\<rparr>]) @
        (if True \<and> ks \<noteq> [] then [\<lparr>securityLevel = KEYSTORE, authorizations = ks\<rparr>] else []))"
proof -
  let ?S = "[\<lparr>tag = KM_TAG_USER_ID, pvalue = integer 7\<rparr>, \<lparr>tag = KM_TAG_NONCE, pvalue = blob [1]\<rparr>]"
  have run: "convertKeyCharacteristics SOFTWARE [] ?S [] True =
      Inr [\<lparr>securityLevel = KEYSTORE,
             authorizations = [\<lparr>tag = KM_TAG_USER_ID, pvalue = integer 7\<rparr>]\<rparr>]"
    by (simp add: convertKeyCharacteristics_def switch_entry_def Contains_def push_back_def
          kmParam2Aidl_def Let_def)
  from output_order_and_omission [OF run] run show ?thesis
    by (simp add: keyMint_part_def keystore_part_def)
qed

lemma getKeyCharacteristics_ok:
  assumes "getKeyCharacteristics km dev kb appId appData out0 = Inr (ok, out, dev')"
  shows "\<exists>S H. convertKeyCharacteristics (m_securityLevel dev) [] S H False = Inr out"
  using assms
  by (auto simp: getKeyCharacteristics_def Let_def kmError2ScopedAStatus_def case_prod_beta
           split: if_splits sum.splits)

lemma getKeyCharacteristics_error:
  assumes "getKeyCharacteristics km dev kb appId appData out0 = Inr (st, out, dev')" "st \<noteq> ok"
  shows "out = out0"
  using assms
  by (auto simp: getKeyCharacteristics_def Let_def kmError2ScopedAStatus_def case_prod_beta
           split: if_splits sum.splits)

text \<open>
  Claim C6 says that \<^verbatim>\<open>getKeyCharacteristics\<close> never returns an entry of the \<^verbatim>\<open>KEYSTORE\<close>
  domain. The constructor of the device takes any \<^verbatim>\<open>SecurityLevel\<close>, and the classification
  labels its first entry with the level of the device: a device made with the level
  \<^verbatim>\<open>KEYSTORE\<close> is not at \<^verbatim>\<open>SOFTWARE\<close>, so the hardware-enforced set of the engine's answer comes
  back in one entry, and that entry is labelled \<^verbatim>\<open>KEYSTORE\<close>.
\<close>

theorem keystore_device_returns_keystore_entry:
  "getKeyCharacteristics
      (example_engine Suc KM_ERROR_OK [\<lparr>tag = KM_TAG_ALGORITHM, pvalue = enumerated 32\<rparr>] [])
      \<lparr>m_impl = 0, m_securityLevel = KEYSTORE\<rparr> [1, 2, 3] [] [] [] =
     Inr (ok,
          [\<lparr>securityLevel = KEYSTORE,
             authorizations = [\<lparr>tag = KM_TAG_ALGORITHM, pvalue = enumerated 32\<rparr>]\<rparr>],
          \<lparr>m_impl = Suc 0, m_securityLevel = KEYSTORE\<rparr>) \<and>
   securityLevel \<lparr>securityLevel = KEYSTORE,
      authorizations = [\<lparr>tag = KM_TAG_ALGORITHM, pvalue = enumerated 32\<rparr>]\<rparr> = KEYSTORE"
  by (simp add: getKeyCharacteristics_def example_engine_def convertKeyCharacteristics_def
        kmParamSet2Aidl_def kmParam2Aidl_def Let_def)

text \<open>
  Claim C6, amended. For every key blob, application id and application data, and whatever
  the engine answers: when \<^verbatim>\<open>getKeyCharacteristics\<close> returns success, its output has at most
  one entry, the entry of the device's own security level, because the classification runs
  with \<^verbatim>\<open>include_keystore_enforced\<close> false and its \<^verbatim>\<open>KEYSTORE\<close> entry is never part of the
  output. So on a device whose security level is not \<^verbatim>\<open>KEYSTORE\<close> (\<^verbatim>\<open>SOFTWARE\<close>,
  \<^verbatim>\<open>TRUSTED_ENVIRONMENT\<close> or \<^verbatim>\<open>STRONGBOX\<close>) no entry of the output has the level \<^verbatim>\<open>KEYSTORE\<close>.
  When the call returns an error it writes no output at all: the out-parameter is as the
  caller left it.
\<close>

theorem getKeyCharacteristics_no_keystore_entry:
  assumes "getKeyCharacteristics km dev kb appId appData out0 = Inr (st, out, dev')"
  shows "(st = ok \<longrightarrow>
            length out \<le> 1 \<and>
            (\<forall>kc \<in> set out. securityLevel kc = m_securityLevel dev) \<and>
            (m_securityLevel dev \<noteq> KEYSTORE \<longrightarrow>
               (\<forall>kc \<in> set out. securityLevel kc \<noteq> KEYSTORE))) \<and>
         (st \<noteq> ok \<longrightarrow> out = out0)"
proof (cases "st = ok")
  case True
  with assms getKeyCharacteristics_ok obtain S H where
    conv: "convertKeyCharacteristics (m_securityLevel dev) [] S H False = Inr out"
    by blast
  from True show ?thesis unfolding convert_output [OF conv] by auto
next
  case False
  with getKeyCharacteristics_error [OF assms] show ?thesis by simp
qed

theorem getKeyCharacteristics_no_keystore_entry_witness:
  "getKeyCharacteristics
      (example_engine Suc KM_ERROR_OK []
         [\<lparr>tag = KM_TAG_ALGORITHM, pvalue = enumerated 32\<rparr>, \<lparr>tag = KM_TAG_USER_ID, pvalue = integer 7\<rparr>])
      \<lparr>m_impl = 0, m_securityLevel = SOFTWARE\<rparr> [1, 2, 3] [] [] [] =
     Inr (ok,
          [\<lparr>securityLevel = SOFTWARE,
             authorizations = [\<lparr>tag = KM_TAG_ALGORITHM, pvalue = enumerated 32\<rparr>]\<rparr>],
          \<lparr>m_impl = Suc 0, m_securityLevel = SOFTWARE\<rparr>) \<and>
   SOFTWARE \<noteq> KEYSTORE \<and>
   securityLevel \<lparr>securityLevel = SOFTWARE,
      authorizations = [\<lparr>tag = KM_TAG_ALGORITHM, pvalue = enumerated 32\<rparr>]\<rparr> \<noteq> KEYSTORE \<and>
   getKeyCharacteristics (example_engine Suc (KM_ERROR_CODE (- 33)) [] [])
      \<lparr>m_impl = 0, m_securityLevel = SOFTWARE\<rparr> [1, 2, 3] [] []
      [\<lparr>securityLevel = STRONGBOX, authorizations = []\<rparr>] =
     Inr (ServiceSpecificError (KM_ERROR_CODE (- 33)),
          [\<lparr>securityLevel = STRONGBOX, authorizations = []\<rparr>],
          \<lparr>m_impl = Suc 0, m_securityLevel = SOFTWARE\<rparr>) \<and>
   ServiceSpecificError (KM_ERROR_CODE (- 33)) \<noteq> ok"
proof -
  have run: "getKeyCharacteristics
      (example_engine Suc KM_ERROR_OK []
         [\<lparr>tag = KM_TAG_ALGORITHM, pvalue = enumerated 32\<rparr>, \<lparr>tag = KM_TAG_USER_ID, pvalue = integer 7\<rparr>])
      \<lparr>m_impl = 0, m_securityLevel = SOFTWARE\<rparr> [1, 2, 3] [] [] [] =
     Inr (ok,
          [\<lparr>securityLevel = SOFTWARE,
             authorizations = [\<lparr>tag = KM_TAG_ALGORITHM, pvalue = enumerated 32\<rparr>]\<rparr>],
          \<lparr>m_impl = Suc 0, m_securityLevel = SOFTWARE\<rparr>)"
    by (simp add: getKeyCharacteristics_def example_engine_def convertKeyCharacteristics_def
          switch_entry_def Contains_def push_back_def kmParam2Aidl_def Let_def)
  have err: "getKeyCharacteristics (example_engine Suc (KM_ERROR_CODE (- 33)) [] [])
      \<lparr>m_impl = 0, m_securityLevel = SOFTWARE\<rparr> [1, 2, 3] [] []
      [\<lparr>securityLevel = STRONGBOX, authorizations = []\<rparr>] =
     Inr (ServiceSpecificError (KM_ERROR_CODE (- 33)),
          [\<lparr>securityLevel = STRONGBOX, authorizations = []\<rparr>],
          \<lparr>m_impl = Suc 0, m_securityLevel = SOFTWARE\<rparr>)"
    by (simp add: getKeyCharacteristics_def example_engine_def kmError2ScopedAStatus_def Let_def)
  from getKeyCharacteristics_no_keystore_entry [OF run]
       getKeyCharacteristics_no_keystore_entry [OF err] run err
  show ?thesis by simp
qed

section \<open>The methods of the device\<close>

lemma generateKey_request_description:
  "key_description (generateKey_request kp att) = KmParamSet kp"
  by (cases att) (simp_all add: generateKey_request_def)

lemma importKey_request_description:
  "key_description (importKey_request kp fmt kd att) = KmParamSet kp"
  by (cases att) (simp_all add: importKey_request_def)

lemma generateKey_error:
  assumes "GenerateKey km (generateKey_request kp att) (m_impl dev) = (r, s)"
      and "error r \<noteq> KM_ERROR_OK"
  shows "generateKey km dev kp att cr = Inr (ServiceSpecificError (error r), cr, dev\<lparr>m_impl := s\<rparr>)"
  using assms by (simp add: generateKey_def Let_def kmError2ScopedAStatus_def)

lemma generateKey_success:
  assumes "GenerateKey km (generateKey_request kp att) (m_impl dev) = (r, s)"
      and "error r = KM_ERROR_OK"
  shows "generateKey km dev kp att cr =
     (case convertKeyCharacteristics (m_securityLevel dev) (KmParamSet kp)
             (unenforced r) (enforced r) True of
        Inl f \<Rightarrow> Inl f
      | Inr characteristics \<Rightarrow>
          Inr (ok,
               \<lparr>keyBlob = key_blob r, keyCharacteristics = characteristics,
                certificateChain = convertCertificateChain (certificate_chain r)\<rparr>,
               dev\<lparr>m_impl := s\<rparr>))"
  using assms
  by (cases cr)
     (simp add: generateKey_def Let_def generateKey_request_description kmBlob2vector_def
           split: sum.splits)

lemma importKey_error:
  assumes "ImportKey km (importKey_request kp fmt kd att) (m_impl dev) = (r, s)"
      and "error r \<noteq> KM_ERROR_OK"
  shows "importKey km dev kp fmt kd att cr =
     Inr (ServiceSpecificError (error r), cr, dev\<lparr>m_impl := s\<rparr>)"
  using assms by (simp add: importKey_def Let_def kmError2ScopedAStatus_def)

lemma importKey_success:
  assumes "ImportKey km (importKey_request kp fmt kd att) (m_impl dev) = (r, s)"
      and "error r = KM_ERROR_OK"
  shows "importKey km dev kp fmt kd att cr =
     (case convertKeyCharacteristics (m_securityLevel dev) (KmParamSet kp)
             (unenforced r) (enforced r) True of
        Inl f \<Rightarrow> Inl f
      | Inr characteristics \<Rightarrow>
          Inr (ok,
               \<lparr>keyBlob = key_blob r, keyCharacteristics = characteristics,
                certificateChain = convertCertificateChain (certificate_chain r)\<rparr>,
               dev\<lparr>m_impl := s\<rparr>))"
  using assms
  by (cases cr)
     (simp add: importKey_def Let_def importKey_request_description kmBlob2vector_def
           split: sum.splits)

lemma importWrappedKey_error:
  assumes "ImportWrappedKey km (importWrappedKey_request wk wb mk up ps bs) (m_impl dev) = (r, s)"
      and "error r \<noteq> KM_ERROR_OK"
  shows "importWrappedKey km dev wk wb mk up ps bs cr =
     Inr (ServiceSpecificError (error r), cr, dev\<lparr>m_impl := s\<rparr>)"
  using assms by (simp add: importWrappedKey_def Let_def kmError2ScopedAStatus_def)

lemma importWrappedKey_success:
  assumes "ImportWrappedKey km (importWrappedKey_request wk wb mk up ps bs) (m_impl dev) = (r, s)"
      and "error r = KM_ERROR_OK"
  shows "importWrappedKey km dev wk wb mk up ps bs cr =
     (case convertKeyCharacteristics (m_securityLevel dev) (KmParamSet up)
             (unenforced r) (enforced r) True of
        Inl f \<Rightarrow> Inl f
      | Inr characteristics \<Rightarrow>
          Inr (ok,
               \<lparr>keyBlob = key_blob r, keyCharacteristics = characteristics,
                certificateChain = convertCertificateChain (certificate_chain r)\<rparr>,
               dev\<lparr>m_impl := s\<rparr>))"
  using assms
  by (cases cr)
     (simp add: importWrappedKey_def Let_def importWrappedKey_request_def kmBlob2vector_def
           split: sum.splits)

lemma upgradeKey_error:
  assumes "UpgradeKey km (upgradeKey_request kb up) (m_impl dev) = (r, s)"
      and "error r \<noteq> KM_ERROR_OK"
  shows "upgradeKey km dev kb up out0 = (ServiceSpecificError (error r), out0, dev\<lparr>m_impl := s\<rparr>)"
  using assms by (simp add: upgradeKey_def Let_def kmError2ScopedAStatus_def)

lemma upgradeKey_success:
  assumes "UpgradeKey km (upgradeKey_request kb up) (m_impl dev) = (r, s)"
      and "error r = KM_ERROR_OK"
  shows "upgradeKey km dev kb up out0 = (ok, upgraded_key r, dev\<lparr>m_impl := s\<rparr>)"
  using assms by (simp add: upgradeKey_def Let_def kmBlob2vector_def)

text \<open>
  Claim C7. For each of \<^verbatim>\<open>generateKey\<close>, \<^verbatim>\<open>importKey\<close>, \<^verbatim>\<open>importWrappedKey\<close> and \<^verbatim>\<open>upgradeKey\<close>,
  with \<open>r\<close> the response of the engine to the request that the call builds: if the error of
  \<open>r\<close> is not \<^verbatim>\<open>KM_ERROR_OK\<close>, the call returns that error and its out-parameter is as the
  caller left it, no field of it written. If the error is \<^verbatim>\<open>KM_ERROR_OK\<close>, the call returns
  success with every field of the out-parameter written from the response: key blob,
  characteristics and certificate chain (the new blob for \<^verbatim>\<open>upgradeKey\<close>); the one other
  outcome of the success path is a failed \<^verbatim>\<open>CHECK\<close> in the classification, which returns
  nothing.
\<close>

theorem lifecycle_error_leaves_outputs:
  "(GenerateKey km (generateKey_request kp att) (m_impl dev) = (gr, gs) \<longrightarrow>
      (error gr \<noteq> KM_ERROR_OK \<longrightarrow>
         generateKey km dev kp att cr =
           Inr (ServiceSpecificError (error gr), cr, dev\<lparr>m_impl := gs\<rparr>)) \<and>
      (error gr = KM_ERROR_OK \<longrightarrow>
         generateKey km dev kp att cr =
           (case convertKeyCharacteristics (m_securityLevel dev) (KmParamSet kp)
                   (unenforced gr) (enforced gr) True of
              Inl f \<Rightarrow> Inl f
            | Inr characteristics \<Rightarrow>
                Inr (ok,
                     \<lparr>keyBlob = key_blob gr, keyCharacteristics = characteristics,
                      certificateChain = convertCertificateChain (certificate_chain gr)\<rparr>,
                     dev\<lparr>m_impl := gs\<rparr>)))) \<and>
   (ImportKey km (importKey_request kp fmt kd att) (m_impl dev) = (ir, ist) \<longrightarrow>
      (error ir \<noteq> KM_ERROR_OK \<longrightarrow>
         importKey km dev kp fmt kd att cr =
           Inr (ServiceSpecificError (error ir), cr, dev\<lparr>m_impl := ist\<rparr>)) \<and>
      (error ir = KM_ERROR_OK \<longrightarrow>
         importKey km dev kp fmt kd att cr =
           (case convertKeyCharacteristics (m_securityLevel dev) (KmParamSet kp)
                   (unenforced ir) (enforced ir) True of
              Inl f \<Rightarrow> Inl f
            | Inr characteristics \<Rightarrow>
                Inr (ok,
                     \<lparr>keyBlob = key_blob ir, keyCharacteristics = characteristics,
                      certificateChain = convertCertificateChain (certificate_chain ir)\<rparr>,
                     dev\<lparr>m_impl := ist\<rparr>)))) \<and>
   (ImportWrappedKey km (importWrappedKey_request wk wb mk up psid bsid) (m_impl dev) = (wr, ws) \<longrightarrow>
      (error wr \<noteq> KM_ERROR_OK \<longrightarrow>
         importWrappedKey km dev wk wb mk up psid bsid cr =
           Inr (ServiceSpecificError (error wr), cr, dev\<lparr>m_impl := ws\<rparr>)) \<and>
      (error wr = KM_ERROR_OK \<longrightarrow>
         importWrappedKey km dev wk wb mk up psid bsid cr =
           (case convertKeyCharacteristics (m_securityLevel dev) (KmParamSet up)
                   (unenforced wr) (enforced wr) True of
              Inl f \<Rightarrow> Inl f
            | Inr characteristics \<Rightarrow>
                Inr (ok,
                     \<lparr>keyBlob = key_blob wr, keyCharacteristics = characteristics,
                      certificateChain = convertCertificateChain (certificate_chain wr)\<rparr>,
                     dev\<lparr>m_impl := ws\<rparr>)))) \<and>
   (UpgradeKey km (upgradeKey_request kb upp) (m_impl dev) = (ur, us) \<longrightarrow>
      (error ur \<noteq> KM_ERROR_OK \<longrightarrow>
         upgradeKey km dev kb upp oldblob =
           (ServiceSpecificError (error ur), oldblob, dev\<lparr>m_impl := us\<rparr>)) \<and>
      (error ur = KM_ERROR_OK \<longrightarrow>
         upgradeKey km dev kb upp oldblob = (ok, upgraded_key ur, dev\<lparr>m_impl := us\<rparr>)))"
proof -
  have g: "GenerateKey km (generateKey_request kp att) (m_impl dev) = (gr, gs) \<longrightarrow>
      (error gr \<noteq> KM_ERROR_OK \<longrightarrow>
         generateKey km dev kp att cr =
           Inr (ServiceSpecificError (error gr), cr, dev\<lparr>m_impl := gs\<rparr>)) \<and>
      (error gr = KM_ERROR_OK \<longrightarrow>
         generateKey km dev kp att cr =
           (case convertKeyCharacteristics (m_securityLevel dev) (KmParamSet kp)
                   (unenforced gr) (enforced gr) True of
              Inl f \<Rightarrow> Inl f
            | Inr characteristics \<Rightarrow>
                Inr (ok,
                     \<lparr>keyBlob = key_blob gr, keyCharacteristics = characteristics,
                      certificateChain = convertCertificateChain (certificate_chain gr)\<rparr>,
                     dev\<lparr>m_impl := gs\<rparr>)))"
    by (intro impI conjI; (rule generateKey_error | rule generateKey_success); assumption)
  have i: "ImportKey km (importKey_request kp fmt kd att) (m_impl dev) = (ir, ist) \<longrightarrow>
      (error ir \<noteq> KM_ERROR_OK \<longrightarrow>
         importKey km dev kp fmt kd att cr =
           Inr (ServiceSpecificError (error ir), cr, dev\<lparr>m_impl := ist\<rparr>)) \<and>
      (error ir = KM_ERROR_OK \<longrightarrow>
         importKey km dev kp fmt kd att cr =
           (case convertKeyCharacteristics (m_securityLevel dev) (KmParamSet kp)
                   (unenforced ir) (enforced ir) True of
              Inl f \<Rightarrow> Inl f
            | Inr characteristics \<Rightarrow>
                Inr (ok,
                     \<lparr>keyBlob = key_blob ir, keyCharacteristics = characteristics,
                      certificateChain = convertCertificateChain (certificate_chain ir)\<rparr>,
                     dev\<lparr>m_impl := ist\<rparr>)))"
    by (intro impI conjI; (rule importKey_error | rule importKey_success); assumption)
  have w: "ImportWrappedKey km (importWrappedKey_request wk wb mk up psid bsid) (m_impl dev)
        = (wr, ws) \<longrightarrow>
      (error wr \<noteq> KM_ERROR_OK \<longrightarrow>
         importWrappedKey km dev wk wb mk up psid bsid cr =
           Inr (ServiceSpecificError (error wr), cr, dev\<lparr>m_impl := ws\<rparr>)) \<and>
      (error wr = KM_ERROR_OK \<longrightarrow>
         importWrappedKey km dev wk wb mk up psid bsid cr =
           (case convertKeyCharacteristics (m_securityLevel dev) (KmParamSet up)
                   (unenforced wr) (enforced wr) True of
              Inl f \<Rightarrow> Inl f
            | Inr characteristics \<Rightarrow>
                Inr (ok,
                     \<lparr>keyBlob = key_blob wr, keyCharacteristics = characteristics,
                      certificateChain = convertCertificateChain (certificate_chain wr)\<rparr>,
                     dev\<lparr>m_impl := ws\<rparr>)))"
    by (intro impI conjI; (rule importWrappedKey_error | rule importWrappedKey_success); assumption)
  have u: "UpgradeKey km (upgradeKey_request kb upp) (m_impl dev) = (ur, us) \<longrightarrow>
      (error ur \<noteq> KM_ERROR_OK \<longrightarrow>
         upgradeKey km dev kb upp oldblob =
           (ServiceSpecificError (error ur), oldblob, dev\<lparr>m_impl := us\<rparr>)) \<and>
      (error ur = KM_ERROR_OK \<longrightarrow>
         upgradeKey km dev kb upp oldblob = (ok, upgraded_key ur, dev\<lparr>m_impl := us\<rparr>))"
    by (intro impI conjI; (rule upgradeKey_error | rule upgradeKey_success); assumption)
  from g i w u show ?thesis by (intro conjI)
qed

theorem lifecycle_error_leaves_outputs_witness:
  "generateKey (example_engine Suc (KM_ERROR_CODE (- 33)) [] []) \<lparr>m_impl = 0, m_securityLevel = SOFTWARE\<rparr>
      [] None \<lparr>keyBlob = [9], keyCharacteristics = [], certificateChain = []\<rparr> =
     Inr (ServiceSpecificError (KM_ERROR_CODE (- 33)),
          \<lparr>keyBlob = [9], keyCharacteristics = [], certificateChain = []\<rparr>,
          \<lparr>m_impl = Suc 0, m_securityLevel = SOFTWARE\<rparr>) \<and>
   importKey (example_engine Suc (KM_ERROR_CODE (- 33)) [] []) \<lparr>m_impl = 0, m_securityLevel = SOFTWARE\<rparr>
      [] 3 [1] None \<lparr>keyBlob = [9], keyCharacteristics = [], certificateChain = []\<rparr> =
     Inr (ServiceSpecificError (KM_ERROR_CODE (- 33)),
          \<lparr>keyBlob = [9], keyCharacteristics = [], certificateChain = []\<rparr>,
          \<lparr>m_impl = Suc 0, m_securityLevel = SOFTWARE\<rparr>) \<and>
   importWrappedKey (example_engine Suc (KM_ERROR_CODE (- 33)) [] [])
      \<lparr>m_impl = 0, m_securityLevel = SOFTWARE\<rparr>
      [1] [2] [3] [] 0 0 \<lparr>keyBlob = [9], keyCharacteristics = [], certificateChain = []\<rparr> =
     Inr (ServiceSpecificError (KM_ERROR_CODE (- 33)),
          \<lparr>keyBlob = [9], keyCharacteristics = [], certificateChain = []\<rparr>,
          \<lparr>m_impl = Suc 0, m_securityLevel = SOFTWARE\<rparr>) \<and>
   upgradeKey (example_engine Suc (KM_ERROR_CODE (- 33)) [] []) \<lparr>m_impl = 0, m_securityLevel = SOFTWARE\<rparr>
      [1] [] [9] =
     (ServiceSpecificError (KM_ERROR_CODE (- 33)), [9], \<lparr>m_impl = Suc 0, m_securityLevel = SOFTWARE\<rparr>) \<and>
   generateKey
      (example_engine Suc KM_ERROR_OK [] [\<lparr>tag = KM_TAG_ALGORITHM, pvalue = enumerated 32\<rparr>])
      \<lparr>m_impl = 0, m_securityLevel = SOFTWARE\<rparr>
      [] None \<lparr>keyBlob = [9], keyCharacteristics = [], certificateChain = []\<rparr> =
     Inr (ok,
          \<lparr>keyBlob = [1, 2, 3],
           keyCharacteristics =
             [\<lparr>securityLevel = SOFTWARE,
                authorizations = [\<lparr>tag = KM_TAG_ALGORITHM, pvalue = enumerated 32\<rparr>]\<rparr>],
           certificateChain = [\<lparr>encodedCertificate = [4]\<rparr>]\<rparr>,
          \<lparr>m_impl = Suc 0, m_securityLevel = SOFTWARE\<rparr>) \<and>
   upgradeKey (example_engine Suc KM_ERROR_OK [] []) \<lparr>m_impl = 0, m_securityLevel = SOFTWARE\<rparr>
      [1] [] [9] =
     (ok, [5, 6], \<lparr>m_impl = Suc 0, m_securityLevel = SOFTWARE\<rparr>)"
proof -
  let ?dev = "\<lparr>m_impl = 0 :: nat, m_securityLevel = SOFTWARE\<rparr>"
  let ?cr = "\<lparr>keyBlob = [9], keyCharacteristics = [], certificateChain = []\<rparr>"
  let ?bad = "example_engine Suc (KM_ERROR_CODE (- 33)) [] []"
  let ?good = "example_engine Suc KM_ERROR_OK [] [\<lparr>tag = KM_TAG_ALGORITHM, pvalue = enumerated 32\<rparr>]"
  let ?good' = "example_engine Suc KM_ERROR_OK [] []"
  have conv: "convertKeyCharacteristics SOFTWARE (KmParamSet [])
      [\<lparr>tag = KM_TAG_ALGORITHM, pvalue = enumerated 32\<rparr>] [] True =
    Inr [\<lparr>securityLevel = SOFTWARE,
           authorizations = [\<lparr>tag = KM_TAG_ALGORITHM, pvalue = enumerated 32\<rparr>]\<rparr>]"
    by (simp add: convertKeyCharacteristics_def switch_entry_def Contains_def push_back_def
          kmParam2Aidl_def Let_def)
  note bad = lifecycle_error_leaves_outputs [where km = ?bad and dev = ?dev and kp = "[]"
      and att = None and cr = ?cr and fmt = 3 and kd = "[1]" and wk = "[1]" and wb = "[2]"
      and mk = "[3]" and up = "[]" and psid = 0 and bsid = 0 and kb = "[1]" and upp = "[]"
      and oldblob = "[9]"
      and gr = "example_response (KM_ERROR_CODE (- 33)) [] []" and gs = "Suc 0"
      and ir = "example_response (KM_ERROR_CODE (- 33)) [] []" and ist = "Suc 0"
      and wr = "example_response (KM_ERROR_CODE (- 33)) [] []" and ws = "Suc 0"
      and ur = "\<lparr>error = KM_ERROR_CODE (- 33), upgraded_key = [5, 6]\<rparr>" and us = "Suc 0"]
  note good = lifecycle_error_leaves_outputs [where km = ?good and dev = ?dev and kp = "[]"
      and att = None and cr = ?cr
      and gr = "example_response KM_ERROR_OK [] [\<lparr>tag = KM_TAG_ALGORITHM, pvalue = enumerated 32\<rparr>]"
      and gs = "Suc 0"]
  note good' = lifecycle_error_leaves_outputs [where km = ?good' and dev = ?dev
      and kb = "[1]" and upp = "[]" and oldblob = "[9]"
      and ur = "\<lparr>error = KM_ERROR_OK, upgraded_key = [5, 6]\<rparr>" and us = "Suc 0"]
  from bad have 1: "generateKey ?bad ?dev [] None ?cr =
       Inr (ServiceSpecificError (KM_ERROR_CODE (- 33)), ?cr, \<lparr>m_impl = Suc 0, m_securityLevel = SOFTWARE\<rparr>)"
    and 2: "importKey ?bad ?dev [] 3 [1] None ?cr =
       Inr (ServiceSpecificError (KM_ERROR_CODE (- 33)), ?cr, \<lparr>m_impl = Suc 0, m_securityLevel = SOFTWARE\<rparr>)"
    and 3: "importWrappedKey ?bad ?dev [1] [2] [3] [] 0 0 ?cr =
       Inr (ServiceSpecificError (KM_ERROR_CODE (- 33)), ?cr, \<lparr>m_impl = Suc 0, m_securityLevel = SOFTWARE\<rparr>)"
    and 4: "upgradeKey ?bad ?dev [1] [] [9] =
       (ServiceSpecificError (KM_ERROR_CODE (- 33)), [9], \<lparr>m_impl = Suc 0, m_securityLevel = SOFTWARE\<rparr>)"
    by (simp_all add: example_engine_def example_response_def)
  from good conv have 5: "generateKey ?good ?dev [] None ?cr =
     Inr (ok,
          \<lparr>keyBlob = [1, 2, 3],
           keyCharacteristics =
             [\<lparr>securityLevel = SOFTWARE,
                authorizations = [\<lparr>tag = KM_TAG_ALGORITHM, pvalue = enumerated 32\<rparr>]\<rparr>],
           certificateChain = [\<lparr>encodedCertificate = [4]\<rparr>]\<rparr>,
          \<lparr>m_impl = Suc 0, m_securityLevel = SOFTWARE\<rparr>)"
    by (simp add: example_engine_def example_response_def convertCertificateChain_def
          convertCertificate_def)
  from good' have 6: "upgradeKey ?good' ?dev [1] [] [9] =
     (ok, [5, 6], \<lparr>m_impl = Suc 0, m_securityLevel = SOFTWARE\<rparr>)"
    by (simp add: example_engine_def)
  from 1 2 3 4 5 6 show ?thesis by (intro conjI)
qed

text \<open>
  Claim C10. \<^verbatim>\<open>addRngEntropy\<close> with an empty buffer returns success and leaves the device,
  the state of the engine in it, as it was, whatever the methods of the engine are: the
  engine is not called. With a non-empty buffer the engine's \<^verbatim>\<open>AddRngEntropy\<close> receives the
  buffer; the status is the engine's error, converted, and the state of the engine is the one
  that the engine returned.
\<close>

theorem addRngEntropy_empty_skips_engine:
  "addRngEntropy km dev [] = (ok, dev) \<and>
   (data \<noteq> [] \<longrightarrow>
      addRngEntropy km dev data =
        (kmError2ScopedAStatus (error (fst (AddRngEntropy km \<lparr>random_data = data\<rparr> (m_impl dev)))),
         dev\<lparr>m_impl := snd (AddRngEntropy km \<lparr>random_data = data\<rparr> (m_impl dev))\<rparr>))"
  by (simp add: addRngEntropy_def Let_def case_prod_beta)

theorem addRngEntropy_empty_skips_engine_witness:
  "addRngEntropy (example_engine Suc (KM_ERROR_CODE (- 1000)) [] [])
      \<lparr>m_impl = 0, m_securityLevel = SOFTWARE\<rparr> [] =
     (ok, \<lparr>m_impl = 0, m_securityLevel = SOFTWARE\<rparr>) \<and>
   [7 :: byte] \<noteq> [] \<and>
   addRngEntropy (example_engine Suc (KM_ERROR_CODE (- 1000)) [] [])
      \<lparr>m_impl = 0, m_securityLevel = SOFTWARE\<rparr> [7] =
     (ServiceSpecificError (KM_ERROR_CODE (- 1000)), \<lparr>m_impl = Suc 0, m_securityLevel = SOFTWARE\<rparr>)"
  using addRngEntropy_empty_skips_engine [of "example_engine Suc (KM_ERROR_CODE (- 1000)) [] []"
          "\<lparr>m_impl = 0, m_securityLevel = SOFTWARE\<rparr>" "[7]"]
  by (simp add: example_engine_def kmError2ScopedAStatus_def)

section \<open>The capacity of the operation table\<close>

lemma begin_operation_spec:
  assumes "BeginOperation km = spec_BeginOperation admit fresh"
  shows "begin_operation km ser dev p kb ps tok r =
    (if fst (admit (begin_request ser p kb ps tok)) \<noteq> KM_ERROR_OK
     then (ServiceSpecificError (fst (admit (begin_request ser p kb ps tok))), r, dev)
     else if length (table (m_impl dev)) < table_size (m_impl dev)
     then (ok,
           r\<lparr>params := snd (admit (begin_request ser p kb ps tok)),
             challenge := fresh (table (m_impl dev)),
             operation := Some (fresh (table (m_impl dev)))\<rparr>,
           dev\<lparr>m_impl := (m_impl dev)\<lparr>table := table (m_impl dev) @ [fresh (table (m_impl dev))]\<rparr>\<rparr>)
     else (ServiceSpecificError KM_ERROR_TOO_MANY_OPERATIONS, r, dev))"
  by (simp add: begin_operation_def assms spec_BeginOperation_def OperationTable_Add_def Let_def
        case_prod_beta kmError2ScopedAStatus_def kmParamSet2Aidl_id)

lemma begin_operation_table:
  assumes "BeginOperation km = spec_BeginOperation admit fresh"
      and "begin_operation km ser dev p kb ps tok r = (st, r', dev')"
  shows "table_size (m_impl dev') = table_size (m_impl dev) \<and>
         length (table (m_impl dev')) = length (table (m_impl dev)) + (if st = ok then 1 else 0)"
  using assms(2) unfolding begin_operation_spec [OF assms(1)]
  by (auto split: if_splits)

lemma begin_calls_table:
  assumes "BeginOperation km = spec_BeginOperation admit fresh"
  shows "begin_calls km ser dev calls = (sts, dev') \<Longrightarrow>
         table_size (m_impl dev') = table_size (m_impl dev) \<and>
         length (table (m_impl dev')) = length (table (m_impl dev)) + count_list sts ok"
proof (induction calls arbitrary: dev sts dev')
  case Nil
  then show ?case by simp
next
  case (Cons c calls)
  obtain p kb ps tok where c: "c = (p, kb, ps, tok)" by (cases c) auto
  obtain st r1 dev1 where
    b: "begin_operation km ser dev p kb ps tok \<lparr>params = [], challenge = 0, operation = None\<rparr>
          = (st, r1, dev1)"
    by (cases "begin_operation km ser dev p kb ps tok \<lparr>params = [], challenge = 0, operation = None\<rparr>")
       auto
  obtain sts1 dev2 where rest: "begin_calls km ser dev1 calls = (sts1, dev2)"
    by (cases "begin_calls km ser dev1 calls") auto
  from Cons.prems c b rest have eq: "sts = st # sts1" "dev' = dev2"
    by simp_all
  from begin_operation_table [OF assms b] Cons.IH [OF rest] eq
  show ?case by auto
qed

text \<open>
  Claim C8, against the operation table modelled from the spec. The device is as its
  constructor leaves it, with a table of \<^verbatim>\<open>kOperationTableSize\<close> = 16 entries, and \<^verbatim>\<open>begin\<close> is
  called any number of times with no \<^verbatim>\<open>finish\<close> or \<^verbatim>\<open>abort\<close> between. Once exactly 16 of
  the calls have succeeded the table holds 16 operations, and the next \<^verbatim>\<open>begin\<close>, whatever
  its arguments, fails and leaves the device and the out-parameter as they were: nothing is
  evicted. Its error is \<^verbatim>\<open>KM_ERROR_TOO_MANY_OPERATIONS\<close> when the engine's other checks admit
  the request. After the \<^verbatim>\<open>abort\<close> of an operation of the table, which succeeds, the table
  holds fewer than 16, and a \<^verbatim>\<open>begin\<close> that the other checks admit succeeds.
\<close>

theorem operation_table_capacity:
  assumes km: "BeginOperation km = spec_BeginOperation admit fresh"
              "AbortOperation km = spec_AbortOperation"
      and run: "begin_calls km ser (CreateKeyMintDevice lvl) calls = (sts, dev)"
      and n: "count_list sts ok = 16"
  shows "length (table (m_impl dev)) = 16 \<and>
         (\<exists>e. begin_operation km ser dev p kb ps tok r = (ServiceSpecificError e, r, dev) \<and>
               (fst (admit (begin_request ser p kb ps tok)) = KM_ERROR_OK \<longrightarrow>
                  e = KM_ERROR_TOO_MANY_OPERATIONS)) \<and>
         (h \<in> set (table (m_impl dev)) \<longrightarrow>
            fst (abort_operation km dev h) = ok \<and>
            length (table (m_impl (snd (abort_operation km dev h)))) < 16 \<and>
            (fst (admit (begin_request ser p kb ps tok)) = KM_ERROR_OK \<longrightarrow>
               fst (begin_operation km ser (snd (abort_operation km dev h)) p kb ps tok r) = ok))"
proof -
  from begin_calls_table [OF km(1) run] n
  have size: "table_size (m_impl dev) = 16" and len: "length (table (m_impl dev)) = 16"
    by (simp_all add: CreateKeyMintDevice_def OperationTable_new_def kOperationTableSize_def)
  have full: "\<exists>e. begin_operation km ser dev p kb ps tok r = (ServiceSpecificError e, r, dev) \<and>
               (fst (admit (begin_request ser p kb ps tok)) = KM_ERROR_OK \<longrightarrow>
                  e = KM_ERROR_TOO_MANY_OPERATIONS)"
    unfolding begin_operation_spec [OF km(1)] using size len by simp
  have after: "fst (abort_operation km dev h) = ok \<and>
      length (table (m_impl (snd (abort_operation km dev h)))) < 16 \<and>
      (fst (admit (begin_request ser p kb ps tok)) = KM_ERROR_OK \<longrightarrow>
         fst (begin_operation km ser (snd (abort_operation km dev h)) p kb ps tok r) = ok)"
    if h: "h \<in> set (table (m_impl dev))"
  proof -
    have ab: "abort_operation km dev h =
        (ok, dev\<lparr>m_impl := (m_impl dev)\<lparr>table := removeAll h (table (m_impl dev))\<rparr>\<rparr>)"
      using h by (simp add: abort_operation_def km(2) spec_AbortOperation_def
            OperationTable_Delete_def kmError2ScopedAStatus_def)
    have shorter: "length (removeAll h (table (m_impl dev))) < 16"
      using h len length_removeAll_less [of h "table (m_impl dev)"] by simp
    show ?thesis
      unfolding ab begin_operation_spec [OF km(1)] using shorter size by simp
  qed
  from len full after show ?thesis by blast
qed

theorem operation_table_capacity_witness:
  "BeginOperation (table_engine (\<lambda>request. (KM_ERROR_OK, [])) (\<lambda>t. word_of_nat (length t))) =
     spec_BeginOperation (\<lambda>request. (KM_ERROR_OK, [])) (\<lambda>t. word_of_nat (length t)) \<and>
   AbortOperation (table_engine (\<lambda>request. (KM_ERROR_OK, [])) (\<lambda>t. word_of_nat (length t))) =
     spec_AbortOperation \<and>
   begin_calls (table_engine (\<lambda>request. (KM_ERROR_OK, [])) (\<lambda>t. word_of_nat (length t)))
      (\<lambda>tok :: unit option. []) (CreateKeyMintDevice SOFTWARE) (replicate 16 (0, [], [], None)) =
     (replicate 16 ok,
      \<lparr>m_impl = \<lparr>table_size = 16, table = [0, 1, 2, 3, 4, 5, 6, 7, 8, 9, 10, 11, 12, 13, 14, 15]\<rparr>,
       m_securityLevel = SOFTWARE\<rparr>) \<and>
   count_list (replicate 16 ok) ok = 16 \<and>
   begin_operation (table_engine (\<lambda>request. (KM_ERROR_OK, [])) (\<lambda>t. word_of_nat (length t)))
      (\<lambda>tok :: unit option. [])
      \<lparr>m_impl = \<lparr>table_size = 16, table = [0, 1, 2, 3, 4, 5, 6, 7, 8, 9, 10, 11, 12, 13, 14, 15]\<rparr>,
       m_securityLevel = SOFTWARE\<rparr>
      0 [] [] None \<lparr>params = [], challenge = 0, operation = None\<rparr> =
     (ServiceSpecificError KM_ERROR_TOO_MANY_OPERATIONS,
      \<lparr>params = [], challenge = 0, operation = None\<rparr>,
      \<lparr>m_impl = \<lparr>table_size = 16, table = [0, 1, 2, 3, 4, 5, 6, 7, 8, 9, 10, 11, 12, 13, 14, 15]\<rparr>,
       m_securityLevel = SOFTWARE\<rparr>) \<and>
   fst (begin_operation (table_engine (\<lambda>request. (KM_ERROR_OK, [])) (\<lambda>t. word_of_nat (length t)))
      (\<lambda>tok :: unit option. [])
      (snd (abort_operation
         (table_engine (\<lambda>request. (KM_ERROR_OK, [])) (\<lambda>t. word_of_nat (length t)))
         \<lparr>m_impl = \<lparr>table_size = 16, table = [0, 1, 2, 3, 4, 5, 6, 7, 8, 9, 10, 11, 12, 13, 14, 15]\<rparr>,
          m_securityLevel = SOFTWARE\<rparr> 3))
      0 [] [] None \<lparr>params = [], challenge = 0, operation = None\<rparr>) = ok"
proof -
  let ?admit = "\<lambda>request :: BeginOperationRequest. (KM_ERROR_OK, [] :: AuthorizationSet)"
  let ?fresh = "\<lambda>t :: keymaster_operation_handle_t list. (word_of_nat (length t) :: 64 word)"
  let ?km = "table_engine ?admit ?fresh"
  let ?ser = "\<lambda>tok :: unit option. [] :: byte list"
  let ?dev = "\<lparr>m_impl = \<lparr>table_size = 16,
                 table = [0, 1, 2, 3, 4, 5, 6, 7, 8, 9, 10, 11, 12, 13, 14, 15 :: 64 word]\<rparr>,
               m_securityLevel = SOFTWARE\<rparr>"
  let ?r = "\<lparr>params = [], challenge = 0, operation = None\<rparr>"
  have km1: "BeginOperation ?km = spec_BeginOperation ?admit ?fresh"
    and km2: "AbortOperation ?km = spec_AbortOperation"
    by (simp_all add: table_engine_def)
  have run: "begin_calls ?km ?ser (CreateKeyMintDevice SOFTWARE) (replicate 16 (0, [], [], None)) =
      (replicate 16 ok, ?dev)"
    by (simp add: eval_nat_numeral begin_operation_spec [OF km1] CreateKeyMintDevice_def
          OperationTable_new_def kOperationTableSize_def)
  have n: "count_list (replicate 16 ok) ok = 16"
    by (simp add: eval_nat_numeral)
  have mem: "(3 :: 64 word) \<in> set (table (m_impl ?dev))" by simp
  have adm: "fst (?admit (begin_request ?ser 0 [] [] None)) = KM_ERROR_OK" by simp
  from operation_table_capacity [OF km1 km2 run n, of 0 "[]" "[]" None ?r 3] mem adm km1 km2 run n
  show ?thesis by auto
qed

end
